theory Spec2Isabelle
  imports Complex_Main "HOL-Library.Word"
begin

unbundle bit_operations_syntax

section \<open>Shared types and constants (packages/shared/src/types.ts)\<close>

text \<open>
  JavaScript numbers are modelled as mathematical reals (\<open>real\<close>), or as \<open>int\<close> where the
  program keeps them integral by construction (array lengths, loop counters, millisecond
  clocks). \<open>Math.round\<close> is HOL's \<open>round\<close> (\<open>\<lfloor>x + 1/2\<rfloor>\<close>, halves go up),
  \<open>Math.floor\<close> and \<open>Math.ceil\<close> are \<open>floor\<close> and \<open>ceiling\<close>.
\<close>

datatype PlayerSlot = A | B

datatype GamePhase =
  lobby | aiming | projectile_flight | round_end | match_end | paused_reconnect

record Vector2 =
  vec_x :: real
  vec_y :: real

record TankState =
  slot :: PlayerSlot
  tank_x :: real
  tank_y :: real
  angleDeg :: real
  tank_power :: real
  hp :: real
  tank_connected :: bool

record ProjectileState =
  pos :: Vector2
  vel :: Vector2
  active :: bool
  owner :: PlayerSlot

text \<open>
  A JavaScript array of numbers: a list whose cells may be holes (\<open>None\<close>). Reading a hole
  or past the end gives \<open>undefined\<close> (\<open>None\<close>); writing past the end extends the array
  with holes.
\<close>

type_synonym jsarray = "real option list"

definition js_get :: "jsarray \<Rightarrow> nat \<Rightarrow> real option" where
  "js_get a i = (if i < length a then a ! i else None)"

definition js_set :: "jsarray \<Rightarrow> nat \<Rightarrow> real \<Rightarrow> jsarray" where
  "js_set a i v =
     (if i < length a then a[i := Some v]
      else a @ replicate (i - length a) None @ [Some v])"

record TerrainState =
  width :: int
  height :: real
  heights :: jsarray

record WindState =
  force :: real

record GameState =
  roomCode :: string
  phase :: GamePhase
  activeSlot :: PlayerSlot
  turnEndsAt :: "int option"
  terrain :: TerrainState
  wind :: WindState
  tanks :: "PlayerSlot \<Rightarrow> TankState"
  projectile :: "ProjectileState option"
  winnerSlot :: "PlayerSlot option"

abbreviation (input) WORLD_WIDTH :: int where "WORLD_WIDTH \<equiv> 1000"
abbreviation (input) WORLD_HEIGHT :: real where "WORLD_HEIGHT \<equiv> 600"
abbreviation (input) TICK_RATE :: real where "TICK_RATE \<equiv> 60"
abbreviation (input) TURN_DURATION_MS :: int where "TURN_DURATION_MS \<equiv> 30000"
abbreviation (input) RECONNECT_GRACE_MS :: int where "RECONNECT_GRACE_MS \<equiv> 30000"

text \<open>The fields of the \<open>PHYSICS\<close> configuration object.\<close>

abbreviation (input) gravity :: real where "gravity \<equiv> 130"
abbreviation (input) windAccelerationScale :: real where "windAccelerationScale \<equiv> 1"
abbreviation (input) projectileSpeedScale :: real where "projectileSpeedScale \<equiv> 28 / 10"
abbreviation (input) tankRadius :: real where "tankRadius \<equiv> 12"
abbreviation (input) projectileRadius :: real where "projectileRadius \<equiv> 4"
abbreviation (input) craterRadius :: real where "craterRadius \<equiv> 36"
abbreviation (input) blastRadius :: real where "blastRadius \<equiv> 84"
abbreviation (input) maxDamage :: real where "maxDamage \<equiv> 55"

abbreviation (input) MIN_ANGLE :: real where "MIN_ANGLE \<equiv> 5"
abbreviation (input) MAX_ANGLE :: real where "MAX_ANGLE \<equiv> 175"
abbreviation (input) MIN_POWER :: real where "MIN_POWER \<equiv> 20"
abbreviation (input) MAX_POWER :: real where "MAX_POWER \<equiv> 120"
abbreviation (input) STARTING_HP :: real where "STARTING_HP \<equiv> 100"

section \<open>World and physics engine (apps/server/src/game.ts)\<close>

definition clamp :: "'a::linorder \<Rightarrow> 'a \<Rightarrow> 'a \<Rightarrow> 'a" where
  "clamp n lo hi = max lo (min hi n)"

definition clampAngle :: "real \<Rightarrow> real" where
  "clampAngle v = clamp v MIN_ANGLE MAX_ANGLE"

definition clampPower :: "real \<Rightarrow> real" where
  "clampPower v = clamp v MIN_POWER MAX_POWER"

fun oppositeSlot :: "PlayerSlot \<Rightarrow> PlayerSlot" where
  "oppositeSlot A = B"
| "oppositeSlot B = A"

text \<open>\<open>Math.hypot\<close> on two arguments.\<close>

definition hypot :: "real \<Rightarrow> real \<Rightarrow> real" where
  "hypot a b = sqrt (a * a + b * b)"

text \<open>\<open>heights[index] ?? terrain.height\<close>: the cell, or the world height for a missing one.\<close>

definition heightAt :: "TerrainState \<Rightarrow> real \<Rightarrow> real" where
  "heightAt t x =
     (let index = clamp (round x) 0 (width t - 1)
      in case js_get (heights t) (nat index) of
           Some h \<Rightarrow> h
         | None \<Rightarrow> height t)"

datatype error = RangeError

text \<open>First loop of \<open>generateTerrain\<close>: one column of the clamped sum of three sines.\<close>

definition terrainColumn :: "real \<Rightarrow> real \<Rightarrow> nat \<Rightarrow> jsarray \<Rightarrow> jsarray" where
  "terrainColumn seed h x hs =
     (let base = h * (62 / 100);
          waveA = sin ((real x + seed * (13 / 100)) * (9 / 1000)) * 42;
          waveB = sin ((real x + seed * (37 / 100)) * (21 / 1000)) * 26;
          waveC = sin ((real x + seed * (91 / 100)) * (43 / 1000)) * 12
      in js_set hs x
           (clamp (real_of_int (round (base + waveA + waveB + waveC)))
                  (real_of_int (round (h * (3 / 10)))) (h - 20)))"

text \<open>Second loop: the in-place 3-point smoothing of column \<open>x\<close>.\<close>

definition orElse :: "'a option \<Rightarrow> 'a \<Rightarrow> 'a" where
  "orElse v d = (case v of Some w \<Rightarrow> w | None \<Rightarrow> d)"

definition smoothColumn :: "real \<Rightarrow> nat \<Rightarrow> jsarray \<Rightarrow> jsarray" where
  "smoothColumn h x hs =
     (let base = h * (62 / 100);
          prev = orElse (js_get hs (x - 1)) (orElse (js_get hs x) base);
          current = orElse (js_get hs x) base;
          next = orElse (js_get hs (x + 1)) (orElse (js_get hs x) base)
      in js_set hs x (real_of_int (round ((prev + current + next) / 3))))"

text \<open>
  \<open>new Array(width)\<close> throws a RangeError unless \<open>width\<close> is an integer in
  \<open>[0, 2^32 - 1]\<close>; otherwise it is an array of \<open>width\<close> holes.
\<close>

definition generateTerrain :: "real \<Rightarrow> int \<Rightarrow> real \<Rightarrow> error + TerrainState" where
  "generateTerrain seed w h =
     (if w < 0 \<or> 4294967295 < w then Inl RangeError
      else
        let hs0 = replicate (nat w) None;
            hs1 = fold (terrainColumn seed h) [0 ..< nat w] hs0;
            hs2 = fold (smoothColumn h) [1 ..< nat w - 1] hs1
        in Inr \<lparr>width = w, height = h, heights = hs2\<rparr>)"

text \<open>
  \<open>createInitialState\<close> grounds the two tanks by the same two assignments as
  \<open>updateTankGrounding\<close>; the model defines the latter first and uses it for both.
\<close>

definition tankYForX :: "GameState \<Rightarrow> real \<Rightarrow> real" where
  "tankYForX state x = heightAt (terrain state) x - tankRadius - 1"

definition updateTankGrounding :: "GameState \<Rightarrow> GameState" where
  "updateTankGrounding state =
     (let s1 = state\<lparr>tanks := (tanks state)
                 (A := (tanks state A)\<lparr>tank_y := tankYForX state (tank_x (tanks state A))\<rparr>)\<rparr>
      in s1\<lparr>tanks := (tanks s1)
                 (B := (tanks s1 B)\<lparr>tank_y := tankYForX s1 (tank_x (tanks s1 B))\<rparr>)\<rparr>)"

definition createInitialState :: "string \<Rightarrow> real \<Rightarrow> PlayerSlot \<Rightarrow> error + GameState" where
  "createInitialState code seed startingSlot =
     (case generateTerrain seed WORLD_WIDTH WORLD_HEIGHT of
        Inl e \<Rightarrow> Inl e
      | Inr t \<Rightarrow>
          Inr (updateTankGrounding
            \<lparr>roomCode = code, phase = lobby, activeSlot = startingSlot, turnEndsAt = None,
             terrain = t, wind = \<lparr>force = 0\<rparr>,
             tanks = (\<lambda>s. case s of
                 A \<Rightarrow> \<lparr>slot = A, tank_x = real_of_int (round (real_of_int (width t) * (18 / 100))),
                       tank_y = 0, angleDeg = 45, tank_power = 72, hp = STARTING_HP,
                       tank_connected = False\<rparr>
               | B \<Rightarrow> \<lparr>slot = B, tank_x = real_of_int (round (real_of_int (width t) * (82 / 100))),
                       tank_y = 0, angleDeg = 135, tank_power = 72, hp = STARTING_HP,
                       tank_connected = False\<rparr>),
             projectile = None, winnerSlot = None\<rparr>))"

definition pickWind :: "real \<Rightarrow> real" where
  "pickWind r = (let raw = (r * 2 - 1) * 24 in real_of_int (round (raw * 10)) / 10)"

definition spawnProjectile :: "GameState \<Rightarrow> PlayerSlot \<Rightarrow> GameState" where
  "spawnProjectile state sl =
     (let tank = tanks state sl;
          angle = clampAngle (angleDeg tank);
          pw = clampPower (tank_power tank);
          launchSpeed = pw * projectileSpeedScale;
          rad = (angle * pi) / 180;
          muzzleDistance = tankRadius + 5;
          spawnX = tank_x tank + cos rad * muzzleDistance;
          spawnY = tank_y tank - sin rad * muzzleDistance
      in state\<lparr>projectile := Some
           \<lparr>pos = \<lparr>vec_x = spawnX, vec_y = spawnY\<rparr>,
            vel = \<lparr>vec_x = cos rad * launchSpeed, vec_y = - sin rad * launchSpeed\<rparr>,
            active = True, owner = sl\<rparr>\<rparr>)"

record ImpactResult =
  point :: Vector2

text \<open>The loop over \<open>["A", "B"]\<close> in \<open>stepProjectile\<close>: the first tank hit ends it.\<close>

fun tankCollision :: "GameState \<Rightarrow> ProjectileState \<Rightarrow> PlayerSlot list \<Rightarrow> ImpactResult option" where
  "tankCollision state p [] = None"
| "tankCollision state p (sl # rest) =
     (let tank = tanks state sl;
          dx = vec_x (pos p) - tank_x tank;
          dy = vec_y (pos p) - tank_y tank;
          distance = hypot dx dy
      in if distance \<le> tankRadius + projectileRadius
         then Some \<lparr>point = \<lparr>vec_x = vec_x (pos p), vec_y = vec_y (pos p)\<rparr>\<rparr>
         else tankCollision state p rest)"

text \<open>
  \<open>stepProjectile\<close> mutates the projectile inside the snapshot and returns the impact:
  the model returns the impact together with the updated snapshot. Its body is cut in two:
  \<open>integrateProjectile\<close> is the four assignments to \<open>vel\<close> and \<open>pos\<close>,
  \<open>findImpact\<close> the checks that follow them.
\<close>

definition integrateProjectile :: "GameState \<Rightarrow> ProjectileState \<Rightarrow> real \<Rightarrow> ProjectileState" where
  "integrateProjectile state p0 dtSeconds =
     (let p1 = p0\<lparr>vel := (vel p0)\<lparr>vec_x := vec_x (vel p0)
                   + force (wind state) * windAccelerationScale * dtSeconds\<rparr>\<rparr>;
          p2 = p1\<lparr>vel := (vel p1)\<lparr>vec_y := vec_y (vel p1) + gravity * dtSeconds\<rparr>\<rparr>;
          p3 = p2\<lparr>pos := (pos p2)\<lparr>vec_x := vec_x (pos p2) + vec_x (vel p2) * dtSeconds\<rparr>\<rparr>
      in p3\<lparr>pos := (pos p3)\<lparr>vec_y := vec_y (pos p3) + vec_y (vel p3) * dtSeconds\<rparr>\<rparr>)"

definition findImpact :: "GameState \<Rightarrow> ProjectileState \<Rightarrow> ImpactResult option" where
  "findImpact state p =
     (case tankCollision state p [A, B] of
        Some hit \<Rightarrow> Some hit
      | None \<Rightarrow>
          let terrainY = heightAt (terrain state) (vec_x (pos p))
          in if terrainY \<le> vec_y (pos p) + projectileRadius
             then Some \<lparr>point = \<lparr>vec_x = vec_x (pos p), vec_y = terrainY\<rparr>\<rparr>
             else if vec_x (pos p) < 0
                     \<or> real_of_int (width (terrain state)) \<le> vec_x (pos p)
                     \<or> height (terrain state) + 100 < vec_y (pos p)
                     \<or> vec_y (pos p) < - 100
             then
               let clampedX = clamp (vec_x (pos p)) 0 (real_of_int (width (terrain state) - 1));
                   clampedY = clamp (vec_y (pos p)) 0 (height (terrain state))
               in Some \<lparr>point = \<lparr>vec_x = clampedX, vec_y = clampedY\<rparr>\<rparr>
             else None)"

definition stepProjectile :: "GameState \<Rightarrow> real \<Rightarrow> ImpactResult option \<times> GameState" where
  "stepProjectile state dtSeconds =
     (case projectile state of
        None \<Rightarrow> (None, state)
      | Some p0 \<Rightarrow>
          if \<not> active p0 then (None, state)
          else
            let p = integrateProjectile state p0 dtSeconds;
                state' = state\<lparr>projectile := Some p\<rparr>
            in (findImpact state' p, state'))"

text \<open>One iteration of the column loop of \<open>deformTerrain\<close>.\<close>

definition deformColumn :: "Vector2 \<Rightarrow> int \<Rightarrow> GameState \<Rightarrow> GameState" where
  "deformColumn impact x state =
     (let dx = real_of_int x - vec_x impact;
          chord = sqrt (max 0 (craterRadius * craterRadius - dx * dx));
          targetHeight = round (vec_y impact + chord)
      in if orElse (js_get (heights (terrain state)) (nat x)) (height (terrain state))
              < real_of_int targetHeight
         then state\<lparr>terrain := (terrain state)\<lparr>heights :=
                js_set (heights (terrain state)) (nat x)
                  (clamp (real_of_int targetHeight) 0 (height (terrain state)))\<rparr>\<rparr>
         else state)"

definition deformTerrain :: "GameState \<Rightarrow> Vector2 \<Rightarrow> GameState" where
  "deformTerrain state impact =
     (let start = clamp \<lfloor>vec_x impact - craterRadius\<rfloor> 0 (width (terrain state) - 1);
          end = clamp \<lceil>vec_x impact + craterRadius\<rceil> 0 (width (terrain state) - 1)
      in fold (deformColumn impact) [start .. end] state)"

record DamageResult =
  dmg_slot :: PlayerSlot
  amount :: int
  hpAfter :: real

text \<open>One iteration of the loop over \<open>["A", "B"]\<close> in \<open>applyBlastDamage\<close>.\<close>

definition blastTank ::
  "Vector2 \<Rightarrow> PlayerSlot \<Rightarrow> DamageResult list \<times> GameState \<Rightarrow> DamageResult list \<times> GameState" where
  "blastTank impact sl acc =
     (let results = fst acc; state = snd acc;
          tank = tanks state sl;
          distance = hypot (tank_x tank - vec_x impact) (tank_y tank - vec_y impact)
      in if blastRadius < distance then (results, state)
         else
           let ratio = 1 - distance / blastRadius;
               damage = max 1 (round (maxDamage * ratio));
               hp' = max 0 (hp tank - real_of_int damage)
           in (results @ [\<lparr>dmg_slot = sl, amount = damage, hpAfter = hp'\<rparr>],
               state\<lparr>tanks := (tanks state)(sl := tank\<lparr>hp := hp'\<rparr>)\<rparr>))"

definition applyBlastDamage :: "GameState \<Rightarrow> Vector2 \<Rightarrow> DamageResult list \<times> GameState" where
  "applyBlastDamage state impact = fold (blastTank impact) [A, B] ([], state)"

definition resolveWinner :: "GameState \<Rightarrow> PlayerSlot \<Rightarrow> PlayerSlot option" where
  "resolveWinner state lastShooter =
     (let hpA = hp (tanks state A); hpB = hp (tanks state B)
      in if 0 < hpA \<and> 0 < hpB then None
         else if hpA \<le> 0 \<and> hpB \<le> 0 then Some (oppositeSlot lastShooter)
         else Some (if 0 < hpA then A else B))"

text \<open>\<open>Date.now()\<close> is the parameter \<open>now\<close>, in milliseconds.\<close>

definition enterTurn :: "GameState \<Rightarrow> PlayerSlot \<Rightarrow> real \<Rightarrow> int \<Rightarrow> GameState" where
  "enterTurn state sl w now =
     state\<lparr>phase := aiming, activeSlot := sl, wind := (wind state)\<lparr>force := w\<rparr>,
           turnEndsAt := Some (now + TURN_DURATION_MS)\<rparr>"

definition setPhase :: "GameState \<Rightarrow> GamePhase \<Rightarrow> GameState" where
  "setPhase state ph =
     (let s1 = state\<lparr>phase := ph\<rparr>
      in if ph \<noteq> aiming then s1\<lparr>turnEndsAt := None\<rparr> else s1)"

section \<open>Seeded random stream (apps/server/src/random.ts)\<close>

text \<open>
  The closure returned by \<open>mulberry32\<close> owns one variable \<open>t\<close>; the model passes it
  explicitly. \<open>t += 0x6d2b79f5\<close> is an addition of numbers and does not wrap; the
  bitwise operators and \<open>Math.imul\<close> read their operands modulo \<open>2^32\<close>, which is
  \<open>word_of_nat\<close> into \<open>32 word\<close>. \<open>seed >>> 0\<close> is the seed modulo \<open>2^32\<close>.
\<close>

type_synonym rng = nat

definition mulberry32 :: "int \<Rightarrow> rng" where
  "mulberry32 sd = nat (sd mod 4294967296)"

definition mulberry32_next :: "rng \<Rightarrow> real \<times> rng" where
  "mulberry32_next t0 =
     (let t = t0 + 0x6d2b79f5;
          tw = (word_of_nat t :: 32 word);
          v1 = (tw XOR drop_bit 15 tw) * (tw OR 1);
          v2 = v1 XOR (v1 + (v1 XOR drop_bit 7 v1) * (v1 OR 61))
      in (real (unat (v2 XOR drop_bit 14 v2)) / 4294967296, t))"

text \<open>\<open>chars[Math.floor(random() * chars.length)] ?? fallback\<close>.\<close>

definition pickChar :: "string \<Rightarrow> char \<Rightarrow> real \<Rightarrow> char" where
  "pickChar alphabet fallback r =
     (let i = \<lfloor>r * real (length alphabet)\<rfloor>
      in if 0 \<le> i \<and> nat i < length alphabet then alphabet ! nat i else fallback)"

text \<open>The character loop shared by \<open>randomCode\<close> (5 rounds) and \<open>randomToken\<close> (24).\<close>

fun randomChars :: "string \<Rightarrow> char \<Rightarrow> nat \<Rightarrow> string \<Rightarrow> rng \<Rightarrow> string \<times> rng" where
  "randomChars alphabet fallback 0 acc g = (acc, g)"
| "randomChars alphabet fallback (Suc n) acc g =
     (let (r, g') = mulberry32_next g
      in randomChars alphabet fallback n (acc @ [pickChar alphabet fallback r]) g')"

definition randomCode :: "rng \<Rightarrow> string \<times> rng" where
  "randomCode g = randomChars ''ABCDEFGHJKMNPQRSTUVWXYZ23456789'' (CHR ''A'') 5 [] g"

definition randomToken :: "rng \<Rightarrow> string \<times> rng" where
  "randomToken g = randomChars ''abcdefghijklmnopqrstuvwxyz0123456789'' (CHR ''0'') 24 [] g"

section \<open>Room lifecycle manager (apps/server/src/room-manager.ts)\<close>

record RoomPlayer =
  player_slot :: PlayerSlot
  token :: string
  socketId :: "string option"
  player_connected :: bool

record PauseSnapshot =
  phaseBeforePause :: GamePhase
  remainingTurnMs :: "int option"

text \<open>
  A timer handle is modelled by whether it is set. The callbacks of the timers are the
  functions \<open>turnTimeout\<close>, \<open>simulationTick\<close>, \<open>advanceTurn\<close> and \<open>reconnectTimeout\<close>
  below; outbound notifications (\<open>io.emit\<close>) do not change any state and are left out.
\<close>

record Room =
  code :: string
  seed :: int
  random :: rng
  nextStartingSlot :: PlayerSlot
  state :: GameState
  players :: "PlayerSlot \<Rightarrow> RoomPlayer option"
  rematchVotes :: "PlayerSlot set"
  turnTimer :: bool
  reconnectTimer :: bool
  simulationTimer :: bool
  pauseSnapshot :: "PauseSnapshot option"
  createdAt :: int

record SocketBinding =
  binding_roomCode :: string
  binding_slot :: PlayerSlot

record JoinResult =
  jr_room :: Room
  jr_slot :: PlayerSlot
  reconnectToken :: string
  started :: bool

record RoomManager =
  rooms :: "string \<rightharpoonup> Room"
  socketBindings :: "string \<rightharpoonup> SocketBinding"
  manager_random :: rng

definition clearTurnTimer :: "Room \<Rightarrow> Room" where
  "clearTurnTimer r = (if turnTimer r then r\<lparr>turnTimer := False\<rparr> else r)"

definition clearSimulation :: "Room \<Rightarrow> Room" where
  "clearSimulation r = (if simulationTimer r then r\<lparr>simulationTimer := False\<rparr> else r)"

definition isConnected :: "Room \<Rightarrow> PlayerSlot \<Rightarrow> bool" where
  "isConnected r sl = (case players r sl of None \<Rightarrow> False | Some p \<Rightarrow> player_connected p)"

definition syncTankConnections :: "Room \<Rightarrow> Room" where
  "syncTankConnections r =
     fold (\<lambda>sl r'. r'\<lparr>state := (state r')\<lparr>tanks := (tanks (state r'))
             (sl := (tanks (state r') sl)\<lparr>tank_connected := isConnected r' sl\<rparr>)\<rparr>\<rparr>)
          [A, B] r"

fun findDisconnectedIn :: "Room \<Rightarrow> PlayerSlot list \<Rightarrow> PlayerSlot option" where
  "findDisconnectedIn r [] = None"
| "findDisconnectedIn r (sl # rest) =
     (if \<not> isConnected r sl then Some sl else findDisconnectedIn r rest)"

definition findDisconnectedSlot :: "Room \<Rightarrow> PlayerSlot option" where
  "findDisconnectedSlot r = findDisconnectedIn r [A, B]"

definition scheduleTurnTimeout :: "Room \<Rightarrow> Room" where
  "scheduleTurnTimeout r =
     (let r1 = clearTurnTimer r
      in if phase (state r1) \<noteq> aiming \<or> turnEndsAt (state r1) = None then r1
         else r1\<lparr>turnTimer := True\<rparr>)"

definition startMatch :: "Room \<Rightarrow> int \<Rightarrow> error + Room" where
  "startMatch r now =
     (let startingSlot = nextStartingSlot r;
          r1 = r\<lparr>nextStartingSlot := oppositeSlot (nextStartingSlot r)\<rparr>;
          (u, g1) = mulberry32_next (random r1);
          r2 = r1\<lparr>random := g1, seed := \<lfloor>u * 1000000000\<rfloor>\<rparr>
      in case createInitialState (code r2) (real_of_int (seed r2)) startingSlot of
           Inl e \<Rightarrow> Inl e
         | Inr st \<Rightarrow>
             let r3 = r2\<lparr>state := st, rematchVotes := {}, pauseSnapshot := None\<rparr>;
                 r4 = (if reconnectTimer r3 then r3\<lparr>reconnectTimer := False\<rparr> else r3);
                 r5 = syncTankConnections r4;
                 (u2, g2) = mulberry32_next (random r5);
                 r6 = r5\<lparr>random := g2,
                         state := enterTurn (state r5) startingSlot (pickWind u2) now\<rparr>;
                 r7 = clearSimulation (clearTurnTimer r6)
             in Inr (scheduleTurnTimeout r7))"

definition fireForSlot :: "Room \<Rightarrow> PlayerSlot \<Rightarrow> Room" where
  "fireForSlot r sl =
     (if phase (state r) \<noteq> aiming then r
      else
        let r1 = clearTurnTimer r;
            r2 = r1\<lparr>state := spawnProjectile (setPhase (state r1) projectile_flight) sl\<rparr>;
            r3 = clearSimulation r2
        in r3\<lparr>simulationTimer := True\<rparr>)"

text \<open>
  \<open>resolveImpact\<close>; without a winner it also schedules the one-shot turn advance, whose
  callback is \<open>advanceTurn\<close>.
\<close>

definition resolveImpact :: "Room \<Rightarrow> Vector2 \<Rightarrow> Room" where
  "resolveImpact r pt =
     (let r1 = clearSimulation r;
          shooter = (case projectile (state r1) of
                       Some p \<Rightarrow> owner p | None \<Rightarrow> activeSlot (state r1));
          s1 = (state r1)\<lparr>projectile := None\<rparr>;
          s2 = deformTerrain s1 pt;
          s3 = updateTankGrounding s2;
          (damage, s4) = applyBlastDamage s3 pt
      in case resolveWinner s4 shooter of
           Some winner \<Rightarrow>
             r1\<lparr>state := s4\<lparr>phase := match_end, winnerSlot := Some winner,
                              turnEndsAt := None\<rparr>,
                rematchVotes := {}\<rparr>
         | None \<Rightarrow> r1\<lparr>state := setPhase s4 round_end\<rparr>)"

text \<open>The callback of the simulation interval set by \<open>fireForSlot\<close> and on resume.\<close>

definition simulationTick :: "Room \<Rightarrow> Room" where
  "simulationTick r =
     (let (impact, st) = stepProjectile (state r) (1 / TICK_RATE);
          r1 = r\<lparr>state := st\<rparr>
      in case impact of Some i \<Rightarrow> resolveImpact r1 (point i) | None \<Rightarrow> r1)"

text \<open>The callback of the 650 ms timeout set by \<open>resolveImpact\<close>.\<close>

definition advanceTurn :: "Room \<Rightarrow> int \<Rightarrow> Room" where
  "advanceTurn r now =
     (if phase (state r) = paused_reconnect \<or> phase (state r) = match_end then r
      else
        let next = oppositeSlot (activeSlot (state r));
            (u, g) = mulberry32_next (random r);
            r1 = r\<lparr>random := g, state := enterTurn (state r) next (pickWind u) now\<rparr>
        in scheduleTurnTimeout r1)"

text \<open>The callback of the turn timer set by \<open>scheduleTurnTimeout\<close>.\<close>

definition turnTimeout :: "Room \<Rightarrow> Room" where
  "turnTimeout r =
     (if phase (state r) \<noteq> aiming then r else fireForSlot r (activeSlot (state r)))"

definition pauseForReconnect :: "Room \<Rightarrow> PlayerSlot \<Rightarrow> int \<Rightarrow> Room" where
  "pauseForReconnect r disconnectedSlot now =
     (if phase (state r) = paused_reconnect \<or> phase (state r) = match_end then r
      else
        let remaining =
              (case turnEndsAt (state r) of
                 Some t \<Rightarrow> if phase (state r) = aiming then Some (max 0 (t - now)) else None
               | None \<Rightarrow> None);
            r1 = r\<lparr>pauseSnapshot := Some \<lparr>phaseBeforePause = phase (state r),
                                           remainingTurnMs = remaining\<rparr>\<rparr>;
            r2 = clearSimulation (clearTurnTimer r1);
            r3 = r2\<lparr>state := (state r2)\<lparr>phase := paused_reconnect, turnEndsAt := None\<rparr>\<rparr>
        in r3\<lparr>reconnectTimer := True\<rparr>)"

text \<open>The callback of the reconnect-grace timer set by \<open>pauseForReconnect\<close>.\<close>

definition reconnectTimeout :: "Room \<Rightarrow> Room" where
  "reconnectTimeout r =
     (if phase (state r) \<noteq> paused_reconnect then r
      else case findDisconnectedSlot r of
             None \<Rightarrow> r
           | Some disconnected \<Rightarrow>
               r\<lparr>state := (state r)\<lparr>phase := match_end,
                                   winnerSlot := Some (oppositeSlot disconnected)\<rparr>,
                 rematchVotes := {}\<rparr>)"

definition resumeFromPauseIfReady :: "Room \<Rightarrow> int \<Rightarrow> Room" where
  "resumeFromPauseIfReady r now =
     (if phase (state r) \<noteq> paused_reconnect then r
      else if findDisconnectedSlot r \<noteq> None then r
      else
        let r1 = (if reconnectTimer r then r\<lparr>reconnectTimer := False\<rparr> else r);
            snapshot = pauseSnapshot r1;
            r2 = r1\<lparr>pauseSnapshot := None\<rparr>
        in case snapshot of
             None \<Rightarrow>
               let r3 = r2\<lparr>state := (state r2)\<lparr>phase := aiming\<rparr>\<rparr>;
                   r4 = (if turnEndsAt (state r3) = None
                         then r3\<lparr>state := (state r3)\<lparr>turnEndsAt := Some (now + TURN_DURATION_MS)\<rparr>\<rparr>
                         else r3)
               in scheduleTurnTimeout r4
           | Some snap \<Rightarrow>
               let r3 = r2\<lparr>state := (state r2)\<lparr>phase := phaseBeforePause snap\<rparr>\<rparr>;
                   r4 = (if phaseBeforePause snap = aiming
                         then
                           let remaining = (case remainingTurnMs snap of
                                              Some ms \<Rightarrow> ms | None \<Rightarrow> TURN_DURATION_MS)
                           in scheduleTurnTimeout
                                (r3\<lparr>state := (state r3)\<lparr>turnEndsAt := Some (now + remaining)\<rparr>\<rparr>)
                         else r3);
                   r5 = (if phaseBeforePause snap = projectile_flight
                         then (clearSimulation r4)\<lparr>simulationTimer := True\<rparr>
                         else r4)
               in if phaseBeforePause snap = round_end
                  then
                    let next = oppositeSlot (activeSlot (state r5));
                        (u, g) = mulberry32_next (random r5);
                        r6 = r5\<lparr>random := g, state := enterTurn (state r5) next (pickWind u) now\<rparr>
                    in scheduleTurnTimeout r6
                  else r5)"

text \<open>
  The room objects are shared by reference between the registry and the code that mutates
  them; the model writes every mutated room back under the key it was looked up with.
\<close>

definition markDisconnected :: "Room \<Rightarrow> PlayerSlot \<Rightarrow> Room" where
  "markDisconnected r sl =
     (case players r sl of
        None \<Rightarrow> r
      | Some p \<Rightarrow>
          r\<lparr>players := (players r)(sl \<mapsto> p\<lparr>socketId := None, player_connected := False\<rparr>),
            state := (state r)\<lparr>tanks := (tanks (state r))
                        (sl := (tanks (state r) sl)\<lparr>tank_connected := False\<rparr>)\<rparr>\<rparr>)"

definition markConnected :: "Room \<Rightarrow> PlayerSlot \<Rightarrow> string \<Rightarrow> Room" where
  "markConnected r sl sid =
     (case players r sl of
        None \<Rightarrow> r
      | Some p \<Rightarrow>
          r\<lparr>players := (players r)(sl \<mapsto> p\<lparr>socketId := Some sid, player_connected := True\<rparr>),
            state := (state r)\<lparr>tanks := (tanks (state r))
                        (sl := (tanks (state r) sl)\<lparr>tank_connected := True\<rparr>)\<rparr>\<rparr>)"

definition destroyRoomIfEmpty :: "RoomManager \<Rightarrow> string \<Rightarrow> Room \<Rightarrow> RoomManager" where
  "destroyRoomIfEmpty m key r =
     (if isConnected r A \<or> isConnected r B then m\<lparr>rooms := (rooms m)(key \<mapsto> r)\<rparr>
      else m\<lparr>rooms := ((rooms m)(key \<mapsto> r))(code r := None)\<rparr>)"

definition leaveBySocketId :: "RoomManager \<Rightarrow> string \<Rightarrow> int \<Rightarrow> RoomManager" where
  "leaveBySocketId m sid now =
     (case socketBindings m sid of
        None \<Rightarrow> m
      | Some binding \<Rightarrow>
          (let m1 = m\<lparr>socketBindings := (socketBindings m)(sid := None)\<rparr>;
               key = binding_roomCode binding;
               sl = binding_slot binding
           in (case rooms m1 key of
                 None \<Rightarrow> m1
               | Some r \<Rightarrow>
                   (case players r sl of
                      None \<Rightarrow> m1
                    | Some player \<Rightarrow>
                        if socketId player \<noteq> Some sid then m1
                        else
                          let r1 = markDisconnected r sl
                          in if phase (state r1) = lobby then destroyRoomIfEmpty m1 key r1
                             else if phase (state r1) = match_end
                             then destroyRoomIfEmpty m1 key
                                    (r1\<lparr>rematchVotes := rematchVotes r1 - {sl}\<rparr>)
                             else m1\<lparr>rooms := (rooms m1)
                                    (key \<mapsto> pauseForReconnect r1 sl now)\<rparr>))))"

text \<open>
  The retry loop of \<open>createUniqueCode\<close>, with the number of rounds left; the loop of the
  source runs \<open>retryLimit\<close> rounds.
\<close>

definition retryLimit :: nat where
  "retryLimit = 1000"

fun retryCode :: "nat \<Rightarrow> (string \<rightharpoonup> Room) \<Rightarrow> rng \<Rightarrow> string option \<times> rng" where
  "retryCode 0 rs g = (None, g)"
| "retryCode (Suc n) rs g =
     (let (c, g') = randomCode g
      in if rs c = None then (Some c, g') else retryCode n rs g')"

text \<open>The template literal of a non-negative integer, and \<open>padStart\<close>.\<close>

fun decimal :: "nat \<Rightarrow> string" where
  "decimal n =
     (if n < 10 then [''0123456789'' ! n]
      else decimal (n div 10) @ [''0123456789'' ! (n mod 10)])"

definition padStart :: "string \<Rightarrow> nat \<Rightarrow> char \<Rightarrow> string" where
  "padStart s n c = replicate (n - length s) c @ s"

definition createUniqueCode :: "RoomManager \<Rightarrow> string \<times> RoomManager" where
  "createUniqueCode m =
     (case retryCode retryLimit (rooms m) (manager_random m) of
        (Some c, g) \<Rightarrow> (c, m\<lparr>manager_random := g\<rparr>)
      | (None, g) \<Rightarrow>
          let (u, g') = mulberry32_next g
          in (padStart (decimal (nat \<lfloor>u * 99999\<rfloor>)) 5 (CHR ''0''),
              m\<lparr>manager_random := g'\<rparr>))"

definition createRoom :: "RoomManager \<Rightarrow> string \<Rightarrow> int \<Rightarrow> error + JoinResult \<times> RoomManager" where
  "createRoom m sid now =
     (let m1 = leaveBySocketId m sid now;
          (c, m2) = createUniqueCode m1;
          (u, g) = mulberry32_next (manager_random m2);
          sd = \<lfloor>u * 1000000000\<rfloor>;
          m3 = m2\<lparr>manager_random := g\<rparr>
      in case createInitialState c (real_of_int sd) A of
           Inl e \<Rightarrow> Inl e
         | Inr st \<Rightarrow>
             let r0 = \<lparr>code = c, seed = sd, random = mulberry32 sd, nextStartingSlot = A,
                       state = st, players = (\<lambda>_. None), rematchVotes = {},
                       turnTimer = False, reconnectTimer = False, simulationTimer = False,
                       pauseSnapshot = None, createdAt = now\<rparr>;
                 (tok, g2) = randomToken (random r0);
                 r1 = r0\<lparr>random := g2,
                         players := (players r0)(A \<mapsto>
                           \<lparr>player_slot = A, token = tok, socketId = Some sid,
                            player_connected = True\<rparr>)\<rparr>;
                 r2 = r1\<lparr>state := (state r1)\<lparr>tanks := (tanks (state r1))
                            (A := (tanks (state r1) A)\<lparr>tank_connected := True\<rparr>)\<rparr>\<rparr>;
                 m4 = m3\<lparr>rooms := (rooms m3)(c \<mapsto> r2),
                         socketBindings := (socketBindings m3)
                           (sid \<mapsto> \<lparr>binding_roomCode = c, binding_slot = A\<rparr>)\<rparr>
             in Inr (\<lparr>jr_room = r2, jr_slot = A, reconnectToken = tok, started = False\<rparr>, m4))"

fun findToken :: "Room \<Rightarrow> string \<Rightarrow> PlayerSlot list \<Rightarrow> PlayerSlot option" where
  "findToken r tok [] = None"
| "findToken r tok (sl # rest) =
     (case players r sl of
        Some p \<Rightarrow> if token p = tok then Some sl else findToken r tok rest
      | None \<Rightarrow> findToken r tok rest)"

text \<open>
  The parts of \<open>joinRoom\<close>: the slot a reconnect token reclaims (none for an absent or
  empty token), the next open slot, and the entry of a new player into a slot.
\<close>

definition claimedSlot :: "Room \<Rightarrow> string option \<Rightarrow> PlayerSlot option" where
  "claimedSlot r reconnect =
     (case reconnect of
        None \<Rightarrow> None
      | Some tok \<Rightarrow> if tok = [] then None else findToken r tok [A, B])"

definition slotToAssign :: "Room \<Rightarrow> PlayerSlot option" where
  "slotToAssign r =
     (if players r A \<noteq> None then (if players r B \<noteq> None then None else Some B)
      else Some A)"

definition admitPlayer :: "Room \<Rightarrow> PlayerSlot \<Rightarrow> string \<Rightarrow> string \<times> Room" where
  "admitPlayer r sl sid =
     (let (tok, g) = randomToken (random r);
          r1 = r\<lparr>random := g,
                 players := (players r)(sl \<mapsto>
                   \<lparr>player_slot = sl, token = tok, socketId = Some sid,
                    player_connected = True\<rparr>)\<rparr>
      in (tok, r1\<lparr>state := (state r1)\<lparr>tanks := (tanks (state r1))
                    (sl := (tanks (state r1) sl)\<lparr>tank_connected := True\<rparr>)\<rparr>\<rparr>))"

definition joinRoom ::
  "RoomManager \<Rightarrow> string \<Rightarrow> string \<Rightarrow> string option \<Rightarrow> int
     \<Rightarrow> error + JoinResult option \<times> RoomManager" where
  "joinRoom m sid key reconnect now =
     (let m1 = leaveBySocketId m sid now
      in case rooms m1 key of
           None \<Rightarrow> Inr (None, m1)
         | Some r \<Rightarrow>
             (case claimedSlot r reconnect of
                Some sl \<Rightarrow>
                  let r1 = resumeFromPauseIfReady (markConnected r sl sid) now;
                      m2 = m1\<lparr>rooms := (rooms m1)(key \<mapsto> r1),
                              socketBindings := (socketBindings m1)
                                (sid \<mapsto> \<lparr>binding_roomCode = key, binding_slot = sl\<rparr>)\<rparr>
                  in Inr (Some \<lparr>jr_room = r1, jr_slot = sl,
                                reconnectToken = (case players r1 sl of
                                                    Some p \<Rightarrow> token p | None \<Rightarrow> []),
                                started = False\<rparr>, m2)
              | None \<Rightarrow>
                  (case slotToAssign r of
                     None \<Rightarrow> Inr (None, m1)
                   | Some sl \<Rightarrow>
                       let (tok, r2) = admitPlayer r sl sid;
                           bindings = (socketBindings m1)
                             (sid \<mapsto> \<lparr>binding_roomCode = key, binding_slot = sl\<rparr>);
                           shouldStart = (players r2 A \<noteq> None \<and> players r2 B \<noteq> None
                                          \<and> phase (state r2) = lobby)
                       in if shouldStart
                          then (case startMatch r2 now of
                                  Inl e \<Rightarrow> Inl e
                                | Inr r3 \<Rightarrow>
                                    Inr (Some \<lparr>jr_room = r3, jr_slot = sl, reconnectToken = tok,
                                               started = True\<rparr>,
                                         m1\<lparr>rooms := (rooms m1)(key \<mapsto> r3),
                                            socketBindings := bindings\<rparr>))
                          else Inr (Some \<lparr>jr_room = r2, jr_slot = sl, reconnectToken = tok,
                                          started = False\<rparr>,
                                    m1\<lparr>rooms := (rooms m1)(key \<mapsto> r2),
                                       socketBindings := bindings\<rparr>))))"

definition applyAim :: "RoomManager \<Rightarrow> string \<Rightarrow> real \<Rightarrow> real \<Rightarrow> Room option \<times> RoomManager" where
  "applyAim m sid angle pw =
     (case socketBindings m sid of
        None \<Rightarrow> (None, m)
      | Some info \<Rightarrow>
          (case rooms m (binding_roomCode info) of
             None \<Rightarrow> (None, m)
           | Some r \<Rightarrow>
               if phase (state r) \<noteq> aiming then (None, m)
               else if activeSlot (state r) \<noteq> binding_slot info then (None, m)
               else
                 let sl = binding_slot info;
                     s1 = (state r)\<lparr>tanks := (tanks (state r))
                            (sl := (tanks (state r) sl)\<lparr>angleDeg := clampAngle angle\<rparr>)\<rparr>;
                     s2 = s1\<lparr>tanks := (tanks s1)
                            (sl := (tanks s1 sl)\<lparr>tank_power := clampPower pw\<rparr>)\<rparr>;
                     r1 = r\<lparr>state := s2\<rparr>
                 in (Some r1, m\<lparr>rooms := (rooms m)(binding_roomCode info \<mapsto> r1)\<rparr>)))"

definition fire :: "RoomManager \<Rightarrow> string \<Rightarrow> Room option \<times> RoomManager" where
  "fire m sid =
     (case socketBindings m sid of
        None \<Rightarrow> (None, m)
      | Some info \<Rightarrow>
          (case rooms m (binding_roomCode info) of
             None \<Rightarrow> (None, m)
           | Some r \<Rightarrow>
               if phase (state r) \<noteq> aiming \<or> activeSlot (state r) \<noteq> binding_slot info
               then (None, m)
               else
                 let r1 = fireForSlot r (binding_slot info)
                 in (Some r1, m\<lparr>rooms := (rooms m)(binding_roomCode info \<mapsto> r1)\<rparr>)))"

definition requestRematch ::
  "RoomManager \<Rightarrow> string \<Rightarrow> int \<Rightarrow> error + string option \<times> RoomManager" where
  "requestRematch m sid now =
     (case socketBindings m sid of
        None \<Rightarrow> Inr (Some ''NOT_IN_ROOM'', m)
      | Some info \<Rightarrow>
          (case rooms m (binding_roomCode info) of
             None \<Rightarrow> Inr (Some ''ROOM_UNAVAILABLE'', m)
           | Some r \<Rightarrow>
               if phase (state r) \<noteq> match_end then Inr (Some ''REMATCH_NOT_AVAILABLE'', m)
               else if \<not> isConnected r (binding_slot info)
               then Inr (Some ''PLAYER_NOT_CONNECTED'', m)
               else
                 let r1 = r\<lparr>rematchVotes := insert (binding_slot info) (rematchVotes r)\<rparr>;
                     hasBothPlayers = (players r1 A \<noteq> None \<and> players r1 B \<noteq> None);
                     bothConnected = (isConnected r1 A \<and> isConnected r1 B);
                     bothAccepted = (A \<in> rematchVotes r1 \<and> B \<in> rematchVotes r1)
                 in if hasBothPlayers \<and> bothConnected \<and> bothAccepted
                    then (case startMatch r1 now of
                            Inl e \<Rightarrow> Inl e
                          | Inr r2 \<Rightarrow>
                              Inr (None, m\<lparr>rooms := (rooms m)(binding_roomCode info \<mapsto> r2)\<rparr>))
                    else Inr (None, m\<lparr>rooms := (rooms m)(binding_roomCode info \<mapsto> r1)\<rparr>)))"

section \<open>Reachable registries\<close>

text \<open>
  The registry of a running server: it starts empty, with the stream seeded from the clock,
  and changes by the public operations of \<open>RoomManager\<close> and by the callbacks of the
  timers of its rooms. A timer callback may run at any moment at which its handle is set
  (the 650 ms turn advance has no handle: at any moment), and every \<open>Date.now()\<close> is an
  arbitrary \<open>now\<close>; this admits every schedule of the event loop, and more.
\<close>

definition emptyManager :: "int \<Rightarrow> RoomManager" where
  "emptyManager now =
     \<lparr>rooms = Map.empty, socketBindings = Map.empty, manager_random = mulberry32 now\<rparr>"

inductive reachable :: "RoomManager \<Rightarrow> bool" where
  constructed: "reachable (emptyManager now)"
| created: "reachable m \<Longrightarrow> createRoom m sid now = Inr (jr, m') \<Longrightarrow> reachable m'"
| joined: "reachable m \<Longrightarrow> joinRoom m sid key reconnect now = Inr (res, m') \<Longrightarrow> reachable m'"
| left: "reachable m \<Longrightarrow> reachable (leaveBySocketId m sid now)"
| aimed: "reachable m \<Longrightarrow> reachable (snd (applyAim m sid angle pw))"
| fired: "reachable m \<Longrightarrow> reachable (snd (fire m sid))"
| rematch: "reachable m \<Longrightarrow> requestRematch m sid now = Inr (res, m') \<Longrightarrow> reachable m'"
| turn_timer: "reachable m \<Longrightarrow> rooms m key = Some r \<Longrightarrow> turnTimer r
     \<Longrightarrow> reachable (m\<lparr>rooms := (rooms m)(key \<mapsto> turnTimeout r)\<rparr>)"
| simulation_timer: "reachable m \<Longrightarrow> rooms m key = Some r \<Longrightarrow> simulationTimer r
     \<Longrightarrow> reachable (m\<lparr>rooms := (rooms m)(key \<mapsto> simulationTick r)\<rparr>)"
| advance_timer: "reachable m \<Longrightarrow> rooms m key = Some r
     \<Longrightarrow> reachable (m\<lparr>rooms := (rooms m)(key \<mapsto> advanceTurn r now)\<rparr>)"
| reconnect_timer: "reachable m \<Longrightarrow> rooms m key = Some r \<Longrightarrow> reconnectTimer r
     \<Longrightarrow> reachable (m\<lparr>rooms := (rooms m)(key \<mapsto> reconnectTimeout r)\<rparr>)"

section \<open>Notions of the specification\<close>

text \<open>A property of every room the registry holds.\<close>

definition everyRoom :: "(Room \<Rightarrow> bool) \<Rightarrow> RoomManager \<Rightarrow> bool" where
  "everyRoom P m \<longleftrightarrow> (\<forall>key r. rooms m key = Some r \<longrightarrow> P r)"

text \<open>The turn deadline of a room is set exactly in its aiming phase.\<close>

definition deadlineIffAiming :: "Room \<Rightarrow> bool" where
  "deadlineIffAiming r \<longleftrightarrow> (turnEndsAt (state r) \<noteq> None) = (phase (state r) = aiming)"


text \<open>
  The quantities the specification of \<open>applyBlastDamage\<close> speaks of: the distance of a
  tank from the impact, and the damage a distance earns.
\<close>

definition blastDistance :: "GameState \<Rightarrow> Vector2 \<Rightarrow> PlayerSlot \<Rightarrow> real" where
  "blastDistance s p sl = hypot (tank_x (tanks s sl) - vec_x p) (tank_y (tanks s sl) - vec_y p)"

definition blastAmount :: "real \<Rightarrow> int" where
  "blastAmount d = max 1 (round (maxDamage * (1 - d / blastRadius)))"

text \<open>The first \<open>k\<close> cells of an array hold numbers, all within \<open>[lo, hi]\<close>.\<close>

definition filledTo :: "nat \<Rightarrow> real \<Rightarrow> real \<Rightarrow> jsarray \<Rightarrow> bool" where
  "filledTo k lo hi hs \<longleftrightarrow> (\<forall>i < k. \<exists>v. hs ! i = Some v \<and> lo \<le> v \<and> v \<le> hi)"

text \<open>
  What one round of the column loop of \<open>deformTerrain\<close> does to the cell it visits, given
  the world height \<open>h\<close>: the statement of the crater profile, to compare the loop with.
\<close>

definition craterCell :: "Vector2 \<Rightarrow> real \<Rightarrow> int \<Rightarrow> real option \<Rightarrow> real option" where
  "craterCell impact h x c =
     (let dx = real_of_int x - vec_x impact;
          target = round (vec_y impact + sqrt (max 0 (craterRadius * craterRadius - dx * dx)))
      in if orElse c h < real_of_int target
         then Some (max 0 (min h (real_of_int target))) else c)"



section \<open>Sample snapshots\<close>

text \<open>
  Concrete values on which the theorems below are instantiated: a flat world of the
  standard size, the two tanks on their starting columns, a shell in flight.
\<close>

definition flatTerrain :: TerrainState where
  "flatTerrain = \<lparr>width = 1000, height = 600, heights = replicate 1000 (Some 400)\<rparr>"

definition sampleTank :: "PlayerSlot \<Rightarrow> real \<Rightarrow> real \<Rightarrow> TankState" where
  "sampleTank sl tx ty =
     \<lparr>slot = sl, tank_x = tx, tank_y = ty, angleDeg = 45, tank_power = 72, hp = STARTING_HP,
      tank_connected = True\<rparr>"

definition sampleState :: GameState where
  "sampleState =
     \<lparr>roomCode = ''ABCDE'', phase = projectile_flight, activeSlot = A, turnEndsAt = None,
      terrain = flatTerrain, wind = \<lparr>force = 0\<rparr>,
      tanks = (\<lambda>sl. case sl of A \<Rightarrow> sampleTank A 180 387 | B \<Rightarrow> sampleTank B 820 387),
      projectile = Some \<lparr>pos = \<lparr>vec_x = 500, vec_y = 100\<rparr>, vel = \<lparr>vec_x = 60, vec_y = 0\<rparr>,
                         active = True, owner = A\<rparr>,
      winnerSlot = None\<rparr>"

text \<open>Two tanks 21 apart on one level, for an impact between them.\<close>

definition closeTanks :: GameState where
  "closeTanks =
     sampleState\<lparr>tanks := (\<lambda>sl. case sl of A \<Rightarrow> sampleTank A 0 0 | B \<Rightarrow> sampleTank B 21 0)\<rparr>"

text \<open>A world with a step in it: the ground is 10 higher left of column 90.\<close>

definition stepTerrain :: TerrainState where
  "stepTerrain =
     \<lparr>width = 1000, height = 600,
      heights = replicate 90 (Some 390) @ replicate 910 (Some 400)\<rparr>"

text \<open>A shell about to leave the stepped world over its right edge, low over the ground.\<close>

definition edgeShot :: GameState where
  "edgeShot =
     sampleState\<lparr>terrain := stepTerrain,
                 projectile := Some \<lparr>pos = \<lparr>vec_x = 999, vec_y = 390\<rparr>,
                                      vel = \<lparr>vec_x = 120, vec_y = 0\<rparr>,
                                      active = True, owner = A\<rparr>\<rparr>"

text \<open>A one-column world whose stored height lies beyond the world height.\<close>

definition overfullTerrain :: TerrainState where
  "overfullTerrain = \<lparr>width = 1, height = 600, heights = [Some 700]\<rparr>"

text \<open>A room in its aiming phase with slot A to act, and a registry that holds only it.\<close>

definition sampleRoom :: Room where
  "sampleRoom =
     \<lparr>code = ''ABCDE'', seed = 42, random = mulberry32 42, nextStartingSlot = B,
      state = sampleState\<lparr>phase := aiming, turnEndsAt := Some 30000, projectile := None\<rparr>,
      players = (\<lambda>sl. case sl of
          A \<Rightarrow> Some \<lparr>player_slot = A, token = ''tokenaaaaaaaaaaaaaaaaaaa'',
                      socketId = Some ''socket-a'', player_connected = True\<rparr>
        | B \<Rightarrow> Some \<lparr>player_slot = B, token = ''tokenbbbbbbbbbbbbbbbbbbb'',
                      socketId = Some ''socket-b'', player_connected = True\<rparr>),
      rematchVotes = {}, turnTimer = True, reconnectTimer = False, simulationTimer = False,
      pauseSnapshot = None, createdAt = 0\<rparr>"

definition sampleManager :: RoomManager where
  "sampleManager =
     \<lparr>rooms = [''ABCDE'' \<mapsto> sampleRoom],
      socketBindings = [''socket-a'' \<mapsto> \<lparr>binding_roomCode = ''ABCDE'', binding_slot = A\<rparr>,
                        ''socket-b'' \<mapsto> \<lparr>binding_roomCode = ''ABCDE'', binding_slot = B\<rparr>],
      manager_random = mulberry32 7\<rparr>"

definition withHp :: "GameState \<Rightarrow> real \<Rightarrow> real \<Rightarrow> GameState" where
  "withHp s a b =
     s\<lparr>tanks := (\<lambda>sl. case sl of A \<Rightarrow> (tanks s A)\<lparr>hp := a\<rparr> | B \<Rightarrow> (tanks s B)\<lparr>hp := b\<rparr>)\<rparr>"

section \<open>A run of room creations\<close>




section \<open>Arithmetic and arrays\<close>

lemma clamp_range: "lo \<le> hi \<Longrightarrow> lo \<le> clamp n lo hi \<and> clamp n lo hi \<le> hi"
  by (simp add: clamp_def)

lemma clamp_empty_range: "hi \<le> lo \<Longrightarrow> clamp n lo hi = lo"
  by (auto simp: clamp_def max_def min_def)

lemma round_between:
  assumes "real_of_int a \<le> y" and "y \<le> real_of_int b"
  shows "a \<le> round y \<and> round y \<le> b"
  using round_mono [OF assms(1)] round_mono [OF assms(2)] by simp

lemma js_get_js_set: "js_get (js_set a k v) i = (if i = k then Some v else js_get a i)"
  by (auto simp: js_get_def js_set_def nth_append)

lemma length_js_set: "length (js_set a k v) = max (length a) (Suc k)"
  by (auto simp: js_set_def)

lemma nth_js_set: "k < length a \<Longrightarrow> i < length a \<Longrightarrow>
    js_set a k v ! i = (if i = k then Some v else a ! i)"
  by (simp add: js_set_def)

lemma length_js_set_inside: "k < length a \<Longrightarrow> length (js_set a k v) = length a"
  by (simp add: js_set_def)

lemma Vector2_updates: "v\<lparr>vec_x := a, vec_y := b\<rparr> = \<lparr>vec_x = a, vec_y = b\<rparr>"
  by (cases v) simp

lemma slot_cases:
  assumes "P A" and "P B"
  shows "\<forall>sl. P sl"
proof
  fix sl
  show "P sl" using assms by (cases sl) simp_all
qed

lemma hypot_zero_right: "hypot a 0 = \<bar>a\<bar>"
  by (simp add: hypot_def)

lemma hypot_nonneg: "0 \<le> hypot a b"
  by (simp add: hypot_def)

lemma hypot_le_iff: "0 \<le> r \<Longrightarrow> hypot a b \<le> r \<longleftrightarrow> a * a + b * b \<le> r * r"
proof -
  assume r: "0 \<le> r"
  have "hypot a b \<le> r \<longleftrightarrow> sqrt (a * a + b * b) \<le> sqrt (r * r)"
    using r by (simp add: hypot_def)
  also have "\<dots> \<longleftrightarrow> a * a + b * b \<le> r * r"
    by (rule real_sqrt_le_iff)
  finally show ?thesis .
qed

lemma heightAt_flatTerrain: "0 \<le> x \<Longrightarrow> x \<le> 999 \<Longrightarrow> heightAt flatTerrain x = 400"
proof -
  assume x: "0 \<le> x" "x \<le> 999"
  have "0 \<le> round x" "round x \<le> 999"
    using x by (simp_all add: round_def)
  then show ?thesis
    by (simp add: heightAt_def flatTerrain_def clamp_def js_get_def Let_def min_def max_def)
qed

section \<open>Projectile flight\<close>

lemma integrateProjectile_eq:
  "integrateProjectile s p dt =
     p\<lparr>vel := \<lparr>vec_x = vec_x (vel p) + force (wind s) * windAccelerationScale * dt,
                vec_y = vec_y (vel p) + gravity * dt\<rparr>,
       pos := \<lparr>vec_x = vec_x (pos p)
                  + (vec_x (vel p) + force (wind s) * windAccelerationScale * dt) * dt,
                vec_y = vec_y (pos p) + (vec_y (vel p) + gravity * dt) * dt\<rparr>\<rparr>"
  by (simp add: integrateProjectile_def Let_def Vector2_updates)

lemma tankCollision_AB:
  "tankCollision s p [A, B] =
     (if hypot (vec_x (pos p) - tank_x (tanks s A)) (vec_y (pos p) - tank_y (tanks s A)) \<le> 16
         \<or> hypot (vec_x (pos p) - tank_x (tanks s B)) (vec_y (pos p) - tank_y (tanks s B)) \<le> 16
      then Some \<lparr>point = pos p\<rparr> else None)"
  by (simp add: Let_def)

lemma findImpact_eq:
  "findImpact s p =
     (if hypot (vec_x (pos p) - tank_x (tanks s A)) (vec_y (pos p) - tank_y (tanks s A)) \<le> 16
         \<or> hypot (vec_x (pos p) - tank_x (tanks s B)) (vec_y (pos p) - tank_y (tanks s B)) \<le> 16
      then Some \<lparr>point = pos p\<rparr>
      else if heightAt (terrain s) (vec_x (pos p)) \<le> vec_y (pos p) + 4
      then Some \<lparr>point = \<lparr>vec_x = vec_x (pos p), vec_y = heightAt (terrain s) (vec_x (pos p))\<rparr>\<rparr>
      else if vec_x (pos p) < 0 \<or> real_of_int (width (terrain s)) \<le> vec_x (pos p)
              \<or> height (terrain s) + 100 < vec_y (pos p) \<or> vec_y (pos p) < - 100
      then Some \<lparr>point = \<lparr>vec_x = clamp (vec_x (pos p)) 0 (real_of_int (width (terrain s)) - 1),
                          vec_y = clamp (vec_y (pos p)) 0 (height (terrain s))\<rparr>\<rparr>
      else None)"
  unfolding findImpact_def tankCollision_AB by (simp add: Let_def)

lemma stepProjectile_active:
  assumes "projectile s = Some p" and "active p"
  shows "stepProjectile s dt =
     (findImpact (s\<lparr>projectile := Some (integrateProjectile s p dt)\<rparr>) (integrateProjectile s p dt),
      s\<lparr>projectile := Some (integrateProjectile s p dt)\<rparr>)"
  using assms by (simp add: stepProjectile_def Let_def)

lemma heightAt_cell:
  "heightAt t x =
     (if nat (max 0 (min (width t - 1) (round x))) < length (heights t)
      then (case heights t ! nat (max 0 (min (width t - 1) (round x))) of
              Some h \<Rightarrow> h
            | None \<Rightarrow> height t)
      else height t)"
  by (simp add: heightAt_def js_get_def clamp_def Let_def)

lemma findImpact_cell:
  "findImpact s p =
     (if sqrt ((vec_x (pos p) - tank_x (tanks s A)) * (vec_x (pos p) - tank_x (tanks s A))
               + (vec_y (pos p) - tank_y (tanks s A)) * (vec_y (pos p) - tank_y (tanks s A))) \<le> 16
         \<or> sqrt ((vec_x (pos p) - tank_x (tanks s B)) * (vec_x (pos p) - tank_x (tanks s B))
               + (vec_y (pos p) - tank_y (tanks s B)) * (vec_y (pos p) - tank_y (tanks s B))) \<le> 16
      then Some \<lparr>point = pos p\<rparr>
      else if heightAt (terrain s) (vec_x (pos p)) \<le> vec_y (pos p) + 4
      then Some \<lparr>point = \<lparr>vec_x = vec_x (pos p), vec_y = heightAt (terrain s) (vec_x (pos p))\<rparr>\<rparr>
      else if vec_x (pos p) < 0 \<or> real_of_int (width (terrain s)) \<le> vec_x (pos p)
              \<or> height (terrain s) + 100 < vec_y (pos p) \<or> vec_y (pos p) < - 100
      then Some \<lparr>point = \<lparr>vec_x = max 0 (min (real_of_int (width (terrain s)) - 1) (vec_x (pos p))),
                          vec_y = max 0 (min (height (terrain s)) (vec_y (pos p)))\<rparr>\<rparr>
      else None)"
  unfolding findImpact_eq hypot_def clamp_def ..

text \<open>
  C1. With an active projectile \<open>p\<close> in the snapshot, \<open>stepProjectile\<close> first adds
  \<open>(wind.force * windAccelerationScale * dt, gravity * dt)\<close> to the velocity, then the new
  velocity times \<open>dt\<close> to the position, stores both in the snapshot, and then tests in this
  order: a tank whose centre is within \<open>tankRadius + projectileRadius\<close> of the new position
  (impact at that position); the terrain height of the projectile's column at or above
  \<open>y + projectileRadius\<close> on screen (impact at \<open>x\<close> and that height); the position outside
  \<open>[0, width)\<close> or more than 100 beyond the world height either way (impact at the
  position clamped into the world box). It returns no impact exactly when none of the three
  holds. The projectile's column is \<open>round x\<close> clamped into \<open>[0, width - 1]\<close>, and the
  terrain height there is the number stored in that cell of the heights array, or the
  world height where the array has no number in that cell. The distance, the column, the
  stored height and the clamps are written out in the statement. This is proved for every
  \<open>dt\<close>, positive or not.
\<close>

theorem stepProjectile_order:
  assumes "projectile s = Some p" and "active p"
  shows
    "let v = \<lparr>vec_x = vec_x (vel p) + force (wind s) * windAccelerationScale * dt,
              vec_y = vec_y (vel p) + gravity * dt\<rparr>;
         q = \<lparr>vec_x = vec_x (pos p) + vec_x v * dt, vec_y = vec_y (pos p) + vec_y v * dt\<rparr>;
         hitsTank = (\<lambda>sl. sqrt ((vec_x q - tank_x (tanks s sl)) * (vec_x q - tank_x (tanks s sl))
                               + (vec_y q - tank_y (tanks s sl)) * (vec_y q - tank_y (tanks s sl)))
                            \<le> tankRadius + projectileRadius);
         column = nat (max 0 (min (width (terrain s) - 1) (round (vec_x q))));
         terrainY = (if column < length (heights (terrain s))
                     then (case heights (terrain s) ! column of
                             Some h \<Rightarrow> h
                           | None \<Rightarrow> height (terrain s))
                     else height (terrain s));
         crossesTerrain = (terrainY \<le> vec_y q + projectileRadius);
         outOfBounds = (vec_x q < 0 \<or> real_of_int (width (terrain s)) \<le> vec_x q
                        \<or> height (terrain s) + 100 < vec_y q \<or> vec_y q < - 100)
     in snd (stepProjectile s dt) = s\<lparr>projectile := Some (p\<lparr>vel := v, pos := q\<rparr>)\<rparr>
        \<and> fst (stepProjectile s dt) =
            (if hitsTank A \<or> hitsTank B then Some \<lparr>point = q\<rparr>
             else if crossesTerrain then Some \<lparr>point = \<lparr>vec_x = vec_x q, vec_y = terrainY\<rparr>\<rparr>
             else if outOfBounds
             then Some \<lparr>point = \<lparr>vec_x = max 0 (min (real_of_int (width (terrain s)) - 1) (vec_x q)),
                                 vec_y = max 0 (min (height (terrain s)) (vec_y q))\<rparr>\<rparr>
             else None)
        \<and> (fst (stepProjectile s dt) = None
             \<longleftrightarrow> \<not> hitsTank A \<and> \<not> hitsTank B \<and> \<not> crossesTerrain \<and> \<not> outOfBounds)"
proof -
  define q where "q = \<lparr>vec_x = vec_x (pos p) + (vec_x (vel p) + force (wind s) * windAccelerationScale * dt) * dt,
                       vec_y = vec_y (pos p) + (vec_y (vel p) + gravity * dt) * dt\<rparr>"
  define p' where "p' = p\<lparr>vel := \<lparr>vec_x = vec_x (vel p) + force (wind s) * windAccelerationScale * dt,
                                  vec_y = vec_y (vel p) + gravity * dt\<rparr>, pos := q\<rparr>"
  have ip: "integrateProjectile s p dt = p'"
    unfolding integrateProjectile_eq p'_def q_def ..
  have fields: "pos p' = q" "terrain (s\<lparr>projectile := Some p'\<rparr>) = terrain s"
    "tanks (s\<lparr>projectile := Some p'\<rparr>) = tanks s"
    by (simp_all add: p'_def)
  define ty where "ty = heightAt (terrain s) (vec_x q)"
  have ty: "heightAt (terrain s) (vec_x q) = ty" by (simp add: ty_def)
  have cell: "(if nat (max 0 (min (width (terrain s) - 1) (round (vec_x q)))) < length (heights (terrain s))
      then (case heights (terrain s) ! nat (max 0 (min (width (terrain s) - 1) (round (vec_x q)))) of
              Some h \<Rightarrow> h
            | None \<Rightarrow> height (terrain s))
      else height (terrain s)) = ty"
    unfolding ty_def heightAt_cell ..
  have step: "stepProjectile s dt = (findImpact (s\<lparr>projectile := Some p'\<rparr>) p', s\<lparr>projectile := Some p'\<rparr>)"
    unfolding stepProjectile_active [OF assms] ip ..
  show ?thesis
    unfolding Let_def step fst_conv snd_conv findImpact_cell fields
    unfolding Vector2.simps q_def [symmetric] p'_def [symmetric] cell ty
    by (simp add: p'_def q_def)
qed

lemma sampleState_fields:
  "terrain sampleState = flatTerrain" "force (wind sampleState) = 0"
  "tanks sampleState A = sampleTank A 180 387" "tanks sampleState B = sampleTank B 820 387"
  by (simp_all add: sampleState_def)

lemma sqrt_le_16: "sqrt a \<le> 16 \<longleftrightarrow> a \<le> 256"
proof -
  have "sqrt 256 = 16" by (rule real_sqrt_unique) simp_all
  then have "sqrt a \<le> 16 \<longleftrightarrow> sqrt a \<le> sqrt 256" by simp
  also have "\<dots> \<longleftrightarrow> a \<le> 256" by (rule real_sqrt_le_iff)
  finally show ?thesis .
qed

lemma stepTerrain_fields:
  "width stepTerrain = 1000" "height stepTerrain = 600"
  "length (heights stepTerrain) = 1000"
  "heights stepTerrain ! 50 = Some 390" "heights stepTerrain ! 500 = Some 400"
  by (simp_all add: stepTerrain_def nth_append)

lemma flatTerrain_fields:
  "width flatTerrain = 1000" "height flatTerrain = 600"
  "length (heights flatTerrain) = 1000"
  "heights flatTerrain ! 500 = Some 400" "heights flatTerrain ! 560 = Some 400"
  "heights flatTerrain ! 810 = Some 400"
  by (simp_all add: flatTerrain_def)

text \<open>
  The theorem at work on the sample snapshot: a shell in flight; a hit on tank B; over the
  stepped world, a shell that lands on column 50, where the ground is stored at 390, while
  the same shell over column 500, where it is stored at 400, flies on, and lands there once
  it is 10 lower; a shell that leaves the world through its top.
\<close>

theorem stepProjectile_order_witness:
  "fst (stepProjectile sampleState 1) = None
   \<and> snd (stepProjectile sampleState 1)
       = sampleState\<lparr>projectile :=
           Some \<lparr>pos = \<lparr>vec_x = 560, vec_y = 230\<rparr>, vel = \<lparr>vec_x = 60, vec_y = 130\<rparr>,
                 active = True, owner = A\<rparr>\<rparr>
   \<and> fst (stepProjectile
            (sampleState\<lparr>projectile :=
               Some \<lparr>pos = \<lparr>vec_x = 810, vec_y = 380\<rparr>, vel = \<lparr>vec_x = 0, vec_y = 0\<rparr>,
                     active = True, owner = A\<rparr>\<rparr>) (1 / 10))
       = Some \<lparr>point = \<lparr>vec_x = 810, vec_y = 3813 / 10\<rparr>\<rparr>
   \<and> fst (stepProjectile
            (sampleState\<lparr>terrain := stepTerrain, projectile :=
               Some \<lparr>pos = \<lparr>vec_x = 50, vec_y = 386\<rparr>, vel = \<lparr>vec_x = 0, vec_y = 0\<rparr>,
                     active = True, owner = A\<rparr>\<rparr>) (1 / 10))
       = Some \<lparr>point = \<lparr>vec_x = 50, vec_y = 390\<rparr>\<rparr>
   \<and> fst (stepProjectile
            (sampleState\<lparr>terrain := stepTerrain, projectile :=
               Some \<lparr>pos = \<lparr>vec_x = 500, vec_y = 386\<rparr>, vel = \<lparr>vec_x = 0, vec_y = 0\<rparr>,
                     active = True, owner = A\<rparr>\<rparr>) (1 / 10))
       = None
   \<and> fst (stepProjectile
            (sampleState\<lparr>terrain := stepTerrain, projectile :=
               Some \<lparr>pos = \<lparr>vec_x = 500, vec_y = 396\<rparr>, vel = \<lparr>vec_x = 0, vec_y = 0\<rparr>,
                     active = True, owner = A\<rparr>\<rparr>) (1 / 10))
       = Some \<lparr>point = \<lparr>vec_x = 500, vec_y = 400\<rparr>\<rparr>
   \<and> fst (stepProjectile
            (sampleState\<lparr>projectile :=
               Some \<lparr>pos = \<lparr>vec_x = 500, vec_y = - 90\<rparr>, vel = \<lparr>vec_x = 0, vec_y = - 200\<rparr>,
                     active = True, owner = A\<rparr>\<rparr>) (1 / 10))
       = Some \<lparr>point = \<lparr>vec_x = 500, vec_y = 0\<rparr>\<rparr>"
proof -
  let ?p = "\<lparr>pos = \<lparr>vec_x = 500, vec_y = 100\<rparr>, vel = \<lparr>vec_x = 60, vec_y = 0\<rparr>,
             active = True, owner = A\<rparr>"
  let ?hit = "\<lparr>pos = \<lparr>vec_x = 810, vec_y = 380\<rparr>, vel = \<lparr>vec_x = 0, vec_y = 0\<rparr>,
               active = True, owner = A\<rparr>"
  let ?left = "\<lparr>pos = \<lparr>vec_x = 50, vec_y = 386\<rparr>, vel = \<lparr>vec_x = 0, vec_y = 0\<rparr>,
               active = True, owner = A\<rparr>"
  let ?mid = "\<lparr>pos = \<lparr>vec_x = 500, vec_y = 386\<rparr>, vel = \<lparr>vec_x = 0, vec_y = 0\<rparr>,
               active = True, owner = A\<rparr>"
  let ?low = "\<lparr>pos = \<lparr>vec_x = 500, vec_y = 396\<rparr>, vel = \<lparr>vec_x = 0, vec_y = 0\<rparr>,
               active = True, owner = A\<rparr>"
  let ?out = "\<lparr>pos = \<lparr>vec_x = 500, vec_y = - 90\<rparr>, vel = \<lparr>vec_x = 0, vec_y = - 200\<rparr>,
               active = True, owner = A\<rparr>"
  have p: "projectile sampleState = Some ?p"
    by (simp add: sampleState_def)
  have flight: "fst (stepProjectile sampleState 1) = None
     \<and> snd (stepProjectile sampleState 1)
       = sampleState\<lparr>projectile :=
           Some \<lparr>pos = \<lparr>vec_x = 560, vec_y = 230\<rparr>, vel = \<lparr>vec_x = 60, vec_y = 130\<rparr>,
                 active = True, owner = A\<rparr>\<rparr>"
    using stepProjectile_order [OF p, of 1]
    by (simp add: sampleState_fields Let_def sqrt_le_16 sampleTank_def flatTerrain_fields)
  have tank: "fst (stepProjectile (sampleState\<lparr>projectile := Some ?hit\<rparr>) (1 / 10))
       = Some \<lparr>point = \<lparr>vec_x = 810, vec_y = 3813 / 10\<rparr>\<rparr>"
    using stepProjectile_order [of "sampleState\<lparr>projectile := Some ?hit\<rparr>" ?hit "1 / 10"]
    by (simp add: sampleState_fields Let_def sqrt_le_16 sampleTank_def)
  have left: "fst (stepProjectile (sampleState\<lparr>terrain := stepTerrain, projectile := Some ?left\<rparr>) (1 / 10))
       = Some \<lparr>point = \<lparr>vec_x = 50, vec_y = 390\<rparr>\<rparr>"
    using stepProjectile_order [of "sampleState\<lparr>terrain := stepTerrain, projectile := Some ?left\<rparr>" ?left "1 / 10"]
    by (simp add: sampleState_fields Let_def sqrt_le_16 sampleTank_def stepTerrain_fields)
  have mid: "fst (stepProjectile (sampleState\<lparr>terrain := stepTerrain, projectile := Some ?mid\<rparr>) (1 / 10))
       = None"
    using stepProjectile_order [of "sampleState\<lparr>terrain := stepTerrain, projectile := Some ?mid\<rparr>" ?mid "1 / 10"]
    by (simp add: sampleState_fields Let_def sqrt_le_16 sampleTank_def stepTerrain_fields)
  have low: "fst (stepProjectile (sampleState\<lparr>terrain := stepTerrain, projectile := Some ?low\<rparr>) (1 / 10))
       = Some \<lparr>point = \<lparr>vec_x = 500, vec_y = 400\<rparr>\<rparr>"
    using stepProjectile_order [of "sampleState\<lparr>terrain := stepTerrain, projectile := Some ?low\<rparr>" ?low "1 / 10"]
    by (simp add: sampleState_fields Let_def sqrt_le_16 sampleTank_def stepTerrain_fields)
  have out: "fst (stepProjectile (sampleState\<lparr>projectile := Some ?out\<rparr>) (1 / 10))
       = Some \<lparr>point = \<lparr>vec_x = 500, vec_y = 0\<rparr>\<rparr>"
    using stepProjectile_order [of "sampleState\<lparr>projectile := Some ?out\<rparr>" ?out "1 / 10"]
    by (simp add: sampleState_fields Let_def sqrt_le_16 sampleTank_def flatTerrain_fields)
  from flight tank left mid low out show ?thesis by simp
qed

section \<open>Blast damage\<close>

lemma blastTank_eq:
  "blastTank p sl (rs, s) =
     (if blastDistance s p sl \<le> 84
      then (rs @ [\<lparr>dmg_slot = sl, amount = blastAmount (blastDistance s p sl),
                   hpAfter = max 0 (hp (tanks s sl) - real_of_int (blastAmount (blastDistance s p sl)))\<rparr>],
            s\<lparr>tanks := (tanks s)(sl := (tanks s sl)
                 \<lparr>hp := max 0 (hp (tanks s sl) - real_of_int (blastAmount (blastDistance s p sl)))\<rparr>)\<rparr>)
      else (rs, s))"
  by (simp add: blastTank_def blastDistance_def blastAmount_def Let_def not_less)

lemma blastDistance_upd:
  "blastDistance (s\<lparr>tanks := (tanks s)(sl := (tanks s sl)\<lparr>hp := v\<rparr>)\<rparr>) p sl' = blastDistance s p sl'"
  by (simp add: blastDistance_def)

lemma applyBlastDamage_eq:
  "applyBlastDamage s p = blastTank p B (blastTank p A ([], s))"
  by (simp add: applyBlastDamage_def)

text \<open>
  C3. \<open>applyBlastDamage\<close> affects exactly the tanks whose distance from the impact is at
  most \<open>blastRadius\<close> (84): the hit points of such a tank become
  \<open>max 0 (hp - max 1 (round (maxDamage * (1 - distance / blastRadius))))\<close>, and the
  returned list holds exactly these tanks, in the order A, B, each with its damage and its
  resulting hit points. A tank farther away is unchanged and absent from the list, and
  nothing else in the snapshot changes.
\<close>

theorem applyBlastDamage_spec:
  "let d = blastDistance s p;
       dmg = (\<lambda>sl. blastAmount (d sl));
       after = (\<lambda>sl. max 0 (hp (tanks s sl) - real_of_int (dmg sl)));
       results = fst (applyBlastDamage s p);
       s' = snd (applyBlastDamage s p)
   in results = map (\<lambda>sl. \<lparr>dmg_slot = sl, amount = dmg sl, hpAfter = after sl\<rparr>)
                    (filter (\<lambda>sl. d sl \<le> blastRadius) [A, B])
      \<and> (\<forall>sl. d sl \<le> blastRadius \<longrightarrow> tanks s' sl = (tanks s sl)\<lparr>hp := after sl\<rparr>)
      \<and> (\<forall>sl. blastRadius < d sl \<longrightarrow> tanks s' sl = tanks s sl \<and> sl \<notin> dmg_slot ` set results)
      \<and> s'\<lparr>tanks := tanks s\<rparr> = s"
  unfolding Let_def applyBlastDamage_eq
  by (intro conjI slot_cases; simp add: blastTank_eq blastDistance_upd)

lemma blastDistance_sample_A: "blastDistance sampleState \<lparr>vec_x = 180, vec_y = 387\<rparr> A = 0"
  by (simp add: blastDistance_def sampleState_def sampleTank_def hypot_def)

lemma blastDistance_sample_B: "blastDistance sampleState \<lparr>vec_x = 180, vec_y = 387\<rparr> B = 640"
  by (simp add: blastDistance_def sampleState_def sampleTank_def hypot_zero_right)

lemma blastAmount_0: "blastAmount 0 = 55"
  by (simp add: blastAmount_def)

theorem applyBlastDamage_spec_witness:
  "blastDistance sampleState \<lparr>vec_x = 180, vec_y = 387\<rparr> A \<le> blastRadius
   \<and> blastRadius < blastDistance sampleState \<lparr>vec_x = 180, vec_y = 387\<rparr> B
   \<and> fst (applyBlastDamage sampleState \<lparr>vec_x = 180, vec_y = 387\<rparr>)
       = [\<lparr>dmg_slot = A, amount = 55, hpAfter = 45\<rparr>]
   \<and> hp (tanks (snd (applyBlastDamage sampleState \<lparr>vec_x = 180, vec_y = 387\<rparr>)) A) = 45
   \<and> hp (tanks (snd (applyBlastDamage sampleState \<lparr>vec_x = 180, vec_y = 387\<rparr>)) B) = 100"
  using applyBlastDamage_spec [of sampleState "\<lparr>vec_x = 180, vec_y = 387\<rparr>"]
  by (simp add: Let_def blastDistance_sample_A blastDistance_sample_B blastAmount_0)
     (simp add: sampleState_def sampleTank_def)

lemma applyBlastDamage_fst:
  "fst (applyBlastDamage s p) =
     map (\<lambda>sl. \<lparr>dmg_slot = sl, amount = blastAmount (blastDistance s p sl),
                hpAfter = max 0 (hp (tanks s sl) - real_of_int (blastAmount (blastDistance s p sl)))\<rparr>)
         (filter (\<lambda>sl. blastDistance s p sl \<le> blastRadius) [A, B])"
  unfolding applyBlastDamage_eq by (simp add: blastTank_eq blastDistance_upd)

lemma blastAmount_antimono: "d1 \<le> d2 \<Longrightarrow> blastAmount d2 \<le> blastAmount d1"
proof -
  assume "d1 \<le> d2"
  then have "maxDamage * (1 - d2 / blastRadius) \<le> maxDamage * (1 - d1 / blastRadius)"
    by simp
  then have "round (maxDamage * (1 - d2 / blastRadius)) \<le> round (maxDamage * (1 - d1 / blastRadius))"
    by (rule round_mono)
  then show ?thesis
    unfolding blastAmount_def by (rule max.mono [OF order_refl])
qed

lemma blastAmount_pos: "1 \<le> blastAmount d"
  by (simp add: blastAmount_def)

lemma blastAmount_10: "blastAmount 10 = 48"
  by (simp add: blastAmount_def round_def)

lemma blastAmount_11: "blastAmount 11 = 48"
  by (simp add: blastAmount_def round_def)

lemma blastAmount_21: "blastAmount 21 = 41"
  by (simp add: blastAmount_def round_def)

lemma blastDistance_closeTanks:
  "blastDistance closeTanks \<lparr>vec_x = 10, vec_y = 0\<rparr> A = 10"
  "blastDistance closeTanks \<lparr>vec_x = 10, vec_y = 0\<rparr> B = 11"
  "blastDistance closeTanks \<lparr>vec_x = 0, vec_y = 0\<rparr> A = 0"
  "blastDistance closeTanks \<lparr>vec_x = 0, vec_y = 0\<rparr> B = 21"
  by (simp_all add: blastDistance_def closeTanks_def sampleTank_def hypot_zero_right)

text \<open>
  C8 as stated fails: damage is rounded to an integer, so two tanks at different distances
  can receive the same amount. With the impact at \<open>(10, 0)\<close>, tank A at distance 10 and
  tank B at distance 11 are both hit for 48.
\<close>

theorem blast_damage_strict_counterexample:
  "blastDistance closeTanks \<lparr>vec_x = 10, vec_y = 0\<rparr> A \<le> blastRadius
   \<and> blastDistance closeTanks \<lparr>vec_x = 10, vec_y = 0\<rparr> B \<le> blastRadius
   \<and> blastDistance closeTanks \<lparr>vec_x = 10, vec_y = 0\<rparr> A
       < blastDistance closeTanks \<lparr>vec_x = 10, vec_y = 0\<rparr> B
   \<and> fst (applyBlastDamage closeTanks \<lparr>vec_x = 10, vec_y = 0\<rparr>)
       = [\<lparr>dmg_slot = A, amount = 48, hpAfter = 52\<rparr>, \<lparr>dmg_slot = B, amount = 48, hpAfter = 52\<rparr>]"
  by (simp add: applyBlastDamage_fst blastDistance_closeTanks blastAmount_10 blastAmount_11)
     (simp add: closeTanks_def sampleTank_def)

text \<open>
  C8, amended. Of two tanks within \<open>blastRadius\<close> of the impact, the nearer one is
  assigned at least as much damage as the farther one (damage never increases with
  distance), and every assigned amount is at least 1.
\<close>

theorem blast_damage_monotone:
  "let results = fst (applyBlastDamage s p)
   in (\<forall>e1 \<in> set results. \<forall>e2 \<in> set results.
         blastDistance s p (dmg_slot e1) < blastDistance s p (dmg_slot e2)
           \<longrightarrow> amount e2 \<le> amount e1)
      \<and> (\<forall>e \<in> set results. 1 \<le> amount e \<and> blastDistance s p (dmg_slot e) \<le> blastRadius)"
  unfolding Let_def applyBlastDamage_fst
  by (auto simp: blastAmount_pos intro: blastAmount_antimono)

theorem blast_damage_monotone_witness:
  "fst (applyBlastDamage closeTanks \<lparr>vec_x = 0, vec_y = 0\<rparr>)
     = [\<lparr>dmg_slot = A, amount = 55, hpAfter = 45\<rparr>, \<lparr>dmg_slot = B, amount = 41, hpAfter = 59\<rparr>]
   \<and> blastDistance closeTanks \<lparr>vec_x = 0, vec_y = 0\<rparr> A
       < blastDistance closeTanks \<lparr>vec_x = 0, vec_y = 0\<rparr> B
   \<and> amount (fst (applyBlastDamage closeTanks \<lparr>vec_x = 0, vec_y = 0\<rparr>) ! 1)
       \<le> amount (fst (applyBlastDamage closeTanks \<lparr>vec_x = 0, vec_y = 0\<rparr>) ! 0)
   \<and> 1 \<le> amount (fst (applyBlastDamage closeTanks \<lparr>vec_x = 0, vec_y = 0\<rparr>) ! 1)"
proof -
  let ?rs = "fst (applyBlastDamage closeTanks \<lparr>vec_x = 0, vec_y = 0\<rparr>)"
  have rs: "?rs = [\<lparr>dmg_slot = A, amount = 55, hpAfter = 45\<rparr>,
                   \<lparr>dmg_slot = B, amount = 41, hpAfter = 59\<rparr>]"
    by (simp add: applyBlastDamage_fst blastDistance_closeTanks blastAmount_0 blastAmount_21)
       (simp add: closeTanks_def sampleTank_def)
  have d: "blastDistance closeTanks \<lparr>vec_x = 0, vec_y = 0\<rparr> A
       < blastDistance closeTanks \<lparr>vec_x = 0, vec_y = 0\<rparr> B"
    by (simp add: blastDistance_closeTanks)
  have mem: "?rs ! 0 \<in> set ?rs" "?rs ! 1 \<in> set ?rs" "dmg_slot (?rs ! 0) = A"
    "dmg_slot (?rs ! 1) = B"
    by (simp_all add: rs)
  have "amount (?rs ! 1) \<le> amount (?rs ! 0) \<and> 1 \<le> amount (?rs ! 1)"
    using blast_damage_monotone [of closeTanks "\<lparr>vec_x = 0, vec_y = 0\<rparr>"] mem d
    unfolding Let_def by metis
  then show ?thesis
    using rs d by simp
qed

section \<open>Winner resolution\<close>

text \<open>
  C4. \<open>resolveWinner\<close> returns no winner when both tanks have positive hit points, the
  slot opposite to the last shooter when neither has, and the tank with positive hit points
  when exactly one has.
\<close>

theorem resolveWinner_cases:
  "(0 < hp (tanks s A) \<and> 0 < hp (tanks s B) \<longrightarrow> resolveWinner s shooter = None)
   \<and> (hp (tanks s A) \<le> 0 \<and> hp (tanks s B) \<le> 0
        \<longrightarrow> resolveWinner s shooter = Some (oppositeSlot shooter))
   \<and> (0 < hp (tanks s A) \<and> hp (tanks s B) \<le> 0 \<longrightarrow> resolveWinner s shooter = Some A)
   \<and> (hp (tanks s A) \<le> 0 \<and> 0 < hp (tanks s B) \<longrightarrow> resolveWinner s shooter = Some B)"
  by (auto simp: resolveWinner_def Let_def)

theorem resolveWinner_cases_witness:
  "resolveWinner (withHp sampleState 100 45) A = None
   \<and> resolveWinner (withHp sampleState 0 0) A = Some B
   \<and> resolveWinner (withHp sampleState 0 (- 3)) B = Some A
   \<and> resolveWinner (withHp sampleState 12 0) B = Some A
   \<and> resolveWinner (withHp sampleState 0 7) A = Some B"
  using resolveWinner_cases [of "withHp sampleState 100 45" A]
        resolveWinner_cases [of "withHp sampleState 0 0" A]
        resolveWinner_cases [of "withHp sampleState 0 (- 3)" B]
        resolveWinner_cases [of "withHp sampleState 12 0" B]
        resolveWinner_cases [of "withHp sampleState 0 7" A]
  by (simp add: withHp_def)

section \<open>Aiming\<close>

lemma sampleManager_lookup:
  "socketBindings sampleManager ''socket-a'' = Some \<lparr>binding_roomCode = ''ABCDE'', binding_slot = A\<rparr>"
  "socketBindings sampleManager ''socket-b'' = Some \<lparr>binding_roomCode = ''ABCDE'', binding_slot = B\<rparr>"
  "rooms sampleManager ''ABCDE'' = Some sampleRoom"
  "phase (state sampleRoom) = aiming"
  "activeSlot (state sampleRoom) = A"
  by (simp_all add: sampleManager_def sampleRoom_def sampleState_def)

text \<open>
  C7. \<open>applyAim\<close> returns a room exactly when the socket is bound to a room of the
  registry whose phase is \<open>aiming\<close> and whose active slot is the caller's. Then the
  caller's tank holds the angle clamped to \<open>[5, 175]\<close> and the power clamped to
  \<open>[20, 120]\<close>, and nothing else in the room changes. In every other case it returns
  \<open>null\<close> and the whole registry, so every room snapshot with both tanks' aim, is as
  before.
\<close>

theorem applyAim_spec:
  "(fst (applyAim m sid angle pw) \<noteq> None
     \<longleftrightarrow> (\<exists>b r. socketBindings m sid = Some b \<and> rooms m (binding_roomCode b) = Some r
               \<and> phase (state r) = aiming \<and> activeSlot (state r) = binding_slot b))
   \<and> (\<forall>b r. socketBindings m sid = Some b \<and> rooms m (binding_roomCode b) = Some r
              \<and> phase (state r) = aiming \<and> activeSlot (state r) = binding_slot b
        \<longrightarrow> (let r' = r\<lparr>state := (state r)\<lparr>tanks := (tanks (state r))
                          (binding_slot b := (tanks (state r) (binding_slot b))
                             \<lparr>angleDeg := max 5 (min 175 angle),
                              tank_power := max 20 (min 120 pw)\<rparr>)\<rparr>\<rparr>
             in applyAim m sid angle pw
                  = (Some r', m\<lparr>rooms := (rooms m)(binding_roomCode b \<mapsto> r')\<rparr>)))
   \<and> (fst (applyAim m sid angle pw) = None \<longrightarrow> snd (applyAim m sid angle pw) = m)"
  by (auto simp: applyAim_def Let_def clampAngle_def clampPower_def clamp_def
           split: option.splits)


theorem applyAim_spec_witness:
  "fst (applyAim sampleManager ''socket-a'' 200 10)
     = Some (sampleRoom\<lparr>state := (state sampleRoom)\<lparr>tanks := (tanks (state sampleRoom))
               (A := (tanks (state sampleRoom) A)\<lparr>angleDeg := 175, tank_power := 20\<rparr>)\<rparr>\<rparr>)
   \<and> fst (applyAim sampleManager ''socket-b'' 90 50) = None
   \<and> snd (applyAim sampleManager ''socket-b'' 90 50) = sampleManager"
proof -
  have a: "fst (applyAim sampleManager ''socket-a'' 200 10)
     = Some (sampleRoom\<lparr>state := (state sampleRoom)\<lparr>tanks := (tanks (state sampleRoom))
               (A := (tanks (state sampleRoom) A)\<lparr>angleDeg := 175, tank_power := 20\<rparr>)\<rparr>\<rparr>)"
    using applyAim_spec [of sampleManager "''socket-a''" 200 10]
    by (simp add: sampleManager_lookup Let_def)
  have "\<not> (\<exists>b r. socketBindings sampleManager ''socket-b'' = Some b
              \<and> rooms sampleManager (binding_roomCode b) = Some r
              \<and> phase (state r) = aiming \<and> activeSlot (state r) = binding_slot b)"
    by (auto simp: sampleManager_lookup)
  then have b: "fst (applyAim sampleManager ''socket-b'' 90 50) = None"
    using applyAim_spec [of sampleManager "''socket-b''" 90 50] by blast
  then have "snd (applyAim sampleManager ''socket-b'' 90 50) = sampleManager"
    using applyAim_spec [of sampleManager "''socket-b''" 90 50] by blast
  with a b show ?thesis by simp
qed

section \<open>Terrain deformation\<close>

lemma deformColumn_frame:
  "deformColumn p x s = s\<lparr>terrain := (terrain s)\<lparr>heights := heights (terrain (deformColumn p x s))\<rparr>\<rparr>"
  by (simp add: deformColumn_def Let_def)

lemma deformColumn_cell:
  "js_get (heights (terrain (deformColumn p x s))) i =
     (if i = nat x then craterCell p (height (terrain s)) x (js_get (heights (terrain s)) i)
      else js_get (heights (terrain s)) i)"
  by (simp add: deformColumn_def craterCell_def Let_def js_get_js_set clamp_def)

lemma deformColumn_height: "height (terrain (deformColumn p x s)) = height (terrain s)"
  by (simp add: deformColumn_def Let_def)

lemma deformColumn_width: "width (terrain (deformColumn p x s)) = width (terrain s)"
  by (simp add: deformColumn_def Let_def)

lemma deformColumn_rest: "(deformColumn p x s)\<lparr>terrain := t\<rparr> = s\<lparr>terrain := t\<rparr>"
  by (simp add: deformColumn_def Let_def)

lemma fold_deformColumn_height:
  "height (terrain (fold (deformColumn p) xs s)) = height (terrain s)"
  by (induction xs arbitrary: s) (simp_all add: deformColumn_height)

lemma fold_deformColumn_width:
  "width (terrain (fold (deformColumn p) xs s)) = width (terrain s)"
  by (induction xs arbitrary: s) (simp_all add: deformColumn_width)

lemma fold_deformColumn_rest:
  "(fold (deformColumn p) xs s)\<lparr>terrain := t\<rparr> = s\<lparr>terrain := t\<rparr>"
  by (induction xs arbitrary: s) (simp_all add: deformColumn_rest)

lemma fold_deformColumn_cell:
  assumes "distinct xs" and "\<forall>x \<in> set xs. 0 \<le> x"
  shows "js_get (heights (terrain (fold (deformColumn p) xs s))) i =
     (if int i \<in> set xs
      then craterCell p (height (terrain s)) (int i) (js_get (heights (terrain s)) i)
      else js_get (heights (terrain s)) i)"
  using assms
proof (induction xs arbitrary: s)
  case Nil
  then show ?case by simp
next
  case (Cons x xs)
  have x: "0 \<le> x" using Cons.prems by simp
  show ?case
  proof (cases "int i = x")
    case True
    then have "int i \<notin> set xs" using Cons.prems by simp
    moreover have "i = nat x" using True by simp
    ultimately show ?thesis
      using Cons.IH [of "deformColumn p x s"] Cons.prems True
      by (simp add: deformColumn_cell deformColumn_height)
  next
    case False
    then have "i \<noteq> nat x" using x by auto
    then show ?thesis
      using Cons.IH [of "deformColumn p x s"] Cons.prems False
      by (simp add: deformColumn_cell deformColumn_height)
  qed
qed

lemma craterCell_mono:
  assumes "c = Some h" and "h \<le> H"
  shows "\<exists>h'. craterCell p H x c = Some h' \<and> h \<le> h'"
  using assms by (auto simp: craterCell_def Let_def orElse_def)

lemma deformTerrain_cell:
  "js_get (heights (terrain (deformTerrain s p))) i =
     (if clamp \<lfloor>vec_x p - craterRadius\<rfloor> 0 (width (terrain s) - 1) \<le> int i
         \<and> int i \<le> clamp \<lceil>vec_x p + craterRadius\<rceil> 0 (width (terrain s) - 1)
      then craterCell p (height (terrain s)) (int i) (js_get (heights (terrain s)) i)
      else js_get (heights (terrain s)) i)"
proof -
  have "\<forall>x \<in> set [clamp \<lfloor>vec_x p - craterRadius\<rfloor> 0 (width (terrain s) - 1) ..
                     clamp \<lceil>vec_x p + craterRadius\<rceil> 0 (width (terrain s) - 1)]. 0 \<le> x"
    by (auto simp: clamp_def)
  then show ?thesis
    unfolding deformTerrain_def Let_def
    by (subst fold_deformColumn_cell) simp_all
qed


lemma stepTerrain_cells:
  "js_get (heights stepTerrain) 64 = Some 390"
  "js_get (heights stepTerrain) 100 = Some 400"
  "js_get (heights stepTerrain) 500 = Some 400"
  by (simp_all add: stepTerrain_def js_get_def nth_append)

lemma stepTerrain_bounded: "js_get (heights stepTerrain) i = Some h \<Longrightarrow> h \<le> height stepTerrain"
  by (auto simp: stepTerrain_def js_get_def nth_append split: if_splits)

lemma stepTerrain_range:
  "clamp \<lfloor>vec_x \<lparr>vec_x = 201 / 2, vec_y = 400\<rparr> - craterRadius\<rfloor> 0 (width stepTerrain - 1) = 64"
  "clamp \<lceil>vec_x \<lparr>vec_x = 201 / 2, vec_y = 400\<rparr> + craterRadius\<rceil> 0 (width stepTerrain - 1) = 137"
  by (simp_all add: clamp_def stepTerrain_def)

text \<open>
  C5 as stated fails in its second half. The loop runs from \<open>floor (x - craterRadius)\<close>
  to \<open>ceil (x + craterRadius)\<close>, so it visits up to one column on each side that lies
  farther than \<open>craterRadius\<close> from the impact; there the chord is 0 and the column is
  cut down to the impact's own height. Impact at \<open>(100.5, 400)\<close>: column 64 is 36.5
  away, and goes from 390 to 400.
\<close>

theorem deformTerrain_far_column_counterexample:
  "js_get (heights (terrain (sampleState\<lparr>terrain := stepTerrain\<rparr>))) 64 = Some 390
   \<and> craterRadius < \<bar>64 - 201 / 2\<bar>
   \<and> js_get (heights (terrain (deformTerrain (sampleState\<lparr>terrain := stepTerrain\<rparr>)
                                   \<lparr>vec_x = 201 / 2, vec_y = 400\<rparr>))) 64 = Some 400"
proof -
  have "craterCell \<lparr>vec_x = 201 / 2, vec_y = 400\<rparr> 600 64 (Some 390) = Some 400"
    by (simp add: craterCell_def Let_def orElse_def)
  then show ?thesis
    using stepTerrain_range stepTerrain_cells(1)
    by (simp add: deformTerrain_cell) (simp add: stepTerrain_def)
qed

text \<open>
  The first half needs the stored heights to lie within the world height, as they do after
  \<open>generateTerrain\<close> and every \<open>deformTerrain\<close>: a column stored beyond it is pulled
  back to the world height by the final clamp.
\<close>

lemma sqrt_1296: "sqrt 1296 = 36"
  by (rule real_sqrt_unique) simp_all

lemma deformTerrain_overfull_column:
  "js_get (heights (terrain (sampleState\<lparr>terrain := overfullTerrain\<rparr>))) 0 = Some 700
   \<and> js_get (heights (terrain (deformTerrain (sampleState\<lparr>terrain := overfullTerrain\<rparr>)
                                   \<lparr>vec_x = 0, vec_y = 800\<rparr>))) 0 = Some 600"
proof -
  have "craterCell \<lparr>vec_x = 0, vec_y = 800\<rparr> 600 0 (Some 700) = Some 600"
    by (simp add: craterCell_def Let_def orElse_def sqrt_1296)
  moreover have "js_get (heights overfullTerrain) 0 = Some 700"
    by (simp add: overfullTerrain_def js_get_def)
  moreover have "height overfullTerrain = 600" "width overfullTerrain = 1"
    by (simp_all add: overfullTerrain_def)
  ultimately show ?thesis
    by (simp add: deformTerrain_cell clamp_def)
qed

text \<open>
  C5, amended. In a snapshot whose stored column heights do not exceed the world height,
  \<open>deformTerrain\<close> leaves every column at least as high a stored value as before; every
  column outside the index range of its loop, \<open>floor (x - craterRadius)\<close> to
  \<open>ceil (x + craterRadius)\<close> clamped into \<open>[0, width - 1]\<close>, is exactly unchanged;
  so for an impact with \<open>0 \<le> x \<le> width - 1\<close>, every column at least
  \<open>craterRadius + 1\<close> from the impact's x-coordinate is exactly unchanged.
\<close>

theorem deformTerrain_monotone:
  assumes "\<forall>i h. js_get (heights (terrain s)) i = Some h \<longrightarrow> h \<le> height (terrain s)"
  shows
    "let hs = heights (terrain s);
         hs' = heights (terrain (deformTerrain s p));
         first = clamp \<lfloor>vec_x p - craterRadius\<rfloor> 0 (width (terrain s) - 1);
         last = clamp \<lceil>vec_x p + craterRadius\<rceil> 0 (width (terrain s) - 1)
     in (\<forall>i h. js_get hs i = Some h \<longrightarrow> (\<exists>h'. js_get hs' i = Some h' \<and> h \<le> h'))
        \<and> (\<forall>i. int i < first \<or> last < int i \<longrightarrow> js_get hs' i = js_get hs i)
        \<and> (0 \<le> vec_x p \<and> vec_x p \<le> real_of_int (width (terrain s)) - 1
             \<longrightarrow> (\<forall>i. craterRadius + 1 \<le> \<bar>real i - vec_x p\<bar> \<longrightarrow> js_get hs' i = js_get hs i))"
proof -
  let ?hs = "heights (terrain s)" and ?hs' = "heights (terrain (deformTerrain s p))"
  let ?first = "clamp \<lfloor>vec_x p - craterRadius\<rfloor> 0 (width (terrain s) - 1)"
  let ?last = "clamp \<lceil>vec_x p + craterRadius\<rceil> 0 (width (terrain s) - 1)"
  have mono: "\<exists>h'. js_get ?hs' i = Some h' \<and> h \<le> h'" if "js_get ?hs i = Some h" for i h
  proof -
    have "h \<le> height (terrain s)" using assms that by blast
    then show ?thesis
      using that craterCell_mono [of "js_get ?hs i" h "height (terrain s)" p "int i"]
      by (simp add: deformTerrain_cell)
  qed
  have outside: "js_get ?hs' i = js_get ?hs i" if "int i < ?first \<or> ?last < int i" for i
    using that by (auto simp: deformTerrain_cell)
  have far: "js_get ?hs' i = js_get ?hs i"
    if inside: "0 \<le> vec_x p" "vec_x p \<le> real_of_int (width (terrain s)) - 1"
      and dist: "craterRadius + 1 \<le> \<bar>real i - vec_x p\<bar>" for i
  proof -
    have "int i < ?first \<or> ?last < int i"
    proof (cases "real i \<le> vec_x p")
      case True
      then have "real i \<le> vec_x p - 37" using dist by simp
      then have "int i < \<lfloor>vec_x p - craterRadius\<rfloor>" by linarith
      moreover have "\<lfloor>vec_x p - craterRadius\<rfloor> \<le> width (terrain s) - 1"
        using inside by linarith
      ultimately have "int i < ?first" unfolding clamp_def by linarith
      then show ?thesis ..
    next
      case False
      then have "vec_x p + 37 \<le> real i" using dist by simp
      then have "\<lceil>vec_x p + craterRadius\<rceil> < int i" by linarith
      moreover have "0 < int i" using \<open>vec_x p + 37 \<le> real i\<close> inside by linarith
      ultimately have "?last < int i" unfolding clamp_def by linarith
      then show ?thesis ..
    qed
    then show ?thesis by (rule outside)
  qed
  show ?thesis
    unfolding Let_def using mono outside far by blast
qed

theorem deformTerrain_monotone_witness:
  "(\<exists>h'. js_get (heights (terrain (deformTerrain (sampleState\<lparr>terrain := stepTerrain\<rparr>)
                                         \<lparr>vec_x = 201 / 2, vec_y = 400\<rparr>))) 64 = Some h'
            \<and> 390 \<le> h')
   \<and> js_get (heights (terrain (deformTerrain (sampleState\<lparr>terrain := stepTerrain\<rparr>)
                                   \<lparr>vec_x = 201 / 2, vec_y = 400\<rparr>))) 500 = Some 400"
proof -
  have b: "\<forall>i h. js_get (heights (terrain (sampleState\<lparr>terrain := stepTerrain\<rparr>))) i = Some h
            \<longrightarrow> h \<le> height (terrain (sampleState\<lparr>terrain := stepTerrain\<rparr>))"
    by (simp add: stepTerrain_bounded)
  have r: "0 \<le> vec_x \<lparr>vec_x = 201 / 2, vec_y = 400\<rparr>
           \<and> vec_x \<lparr>vec_x = 201 / 2, vec_y = 400\<rparr>
               \<le> real_of_int (width (terrain (sampleState\<lparr>terrain := stepTerrain\<rparr>))) - 1"
    by (simp add: stepTerrain_def)
  have d: "craterRadius + 1 \<le> \<bar>real 500 - vec_x \<lparr>vec_x = 201 / 2, vec_y = 400\<rparr>\<bar>"
    by simp
  have m: "\<exists>h'. js_get (heights (terrain (deformTerrain (sampleState\<lparr>terrain := stepTerrain\<rparr>)
                                         \<lparr>vec_x = 201 / 2, vec_y = 400\<rparr>))) 64 = Some h'
            \<and> 390 \<le> h'"
    using deformTerrain_monotone [OF b, of "\<lparr>vec_x = 201 / 2, vec_y = 400\<rparr>"] stepTerrain_cells(1)
    unfolding Let_def by simp
  have u: "js_get (heights (terrain (deformTerrain (sampleState\<lparr>terrain := stepTerrain\<rparr>)
                                   \<lparr>vec_x = 201 / 2, vec_y = 400\<rparr>))) 500
           = js_get (heights (terrain (sampleState\<lparr>terrain := stepTerrain\<rparr>))) 500"
    using deformTerrain_monotone [OF b, of "\<lparr>vec_x = 201 / 2, vec_y = 400\<rparr>"] r d
    unfolding Let_def by blast
  show ?thesis
    using m u stepTerrain_cells(3) by simp
qed

section \<open>Terrain generation\<close>

lemma terrainColumn_filled:
  assumes "lo = real_of_int (round (h * (3 / 10)))" and "hi = h - 20" and "lo \<le> hi"
    and "x < length hs" and "filledTo x lo hi hs"
  shows "length (terrainColumn sd h x hs) = length hs
         \<and> filledTo (Suc x) lo hi (terrainColumn sd h x hs)"
proof -
  obtain v where v: "terrainColumn sd h x hs = js_set hs x v" "lo \<le> v" "v \<le> hi"
    using assms(1-3) clamp_range [of lo hi] by (simp add: terrainColumn_def Let_def)
  show ?thesis
    using assms(4,5) v
    by (auto simp: filledTo_def nth_js_set length_js_set_inside less_Suc_eq)
qed

lemma firstLoop_filled:
  assumes "lo = real_of_int (round (h * (3 / 10)))" and "hi = h - 20" and "lo \<le> hi"
  shows "k \<le> n \<Longrightarrow>
     length (fold (terrainColumn sd h) [0 ..< k] (replicate n None)) = n
     \<and> filledTo k lo hi (fold (terrainColumn sd h) [0 ..< k] (replicate n None))"
proof (induction k)
  case 0
  then show ?case by (simp add: filledTo_def)
next
  case (Suc k)
  then show ?case
    using terrainColumn_filled [OF assms, of k
            "fold (terrainColumn sd h) [0 ..< k] (replicate n None)" sd]
    by simp
qed

lemma smoothColumn_filled:
  assumes "lo = real_of_int a" and "hi = real_of_int b"
    and "0 < x" and "Suc x < length hs" and "filledTo (length hs) lo hi hs"
  shows "length (smoothColumn h x hs) = length hs
         \<and> filledTo (length hs) lo hi (smoothColumn h x hs)"
proof -
  obtain p where p: "hs ! (x - 1) = Some p" "lo \<le> p" "p \<le> hi"
    using assms(4,5) unfolding filledTo_def by (metis Suc_lessD less_imp_diff_less)
  obtain c where c: "hs ! x = Some c" "lo \<le> c" "c \<le> hi"
    using assms(4,5) unfolding filledTo_def by (metis Suc_lessD)
  obtain n where n: "hs ! (x + 1) = Some n" "lo \<le> n" "n \<le> hi"
    using assms(4,5) unfolding filledTo_def by (metis Suc_eq_plus1)
  have "real_of_int a \<le> (p + c + n) / 3" "(p + c + n) / 3 \<le> real_of_int b"
    using p c n assms(1,2) by simp_all
  then have r: "a \<le> round ((p + c + n) / 3) \<and> round ((p + c + n) / 3) \<le> b"
    by (rule round_between)
  have "x - 1 < length hs" "x < length hs" "x + 1 < length hs"
    using assms(4) by simp_all
  then have "smoothColumn h x hs = js_set hs x (real_of_int (round ((p + c + n) / 3)))"
    using p(1) c(1) n(1)
    by (simp add: smoothColumn_def Let_def js_get_def orElse_def)
  then show ?thesis
    using assms(1,2,4,5) r
    by (auto simp: filledTo_def nth_js_set length_js_set_inside)
qed

lemma secondLoop_filled:
  assumes "lo = real_of_int a" and "hi = real_of_int b"
  shows "\<forall>x \<in> set xs. 0 < x \<and> Suc x < length hs \<Longrightarrow> filledTo (length hs) lo hi hs \<Longrightarrow>
     length (fold (smoothColumn h) xs hs) = length hs
     \<and> filledTo (length hs) lo hi (fold (smoothColumn h) xs hs)"
proof (induction xs arbitrary: hs)
  case Nil
  then show ?case by simp
next
  case (Cons x xs)
  have s: "length (smoothColumn h x hs) = length hs
           \<and> filledTo (length hs) lo hi (smoothColumn h x hs)"
    using smoothColumn_filled [OF assms, of x hs h] Cons.prems by simp
  then show ?case
    using Cons.IH [of "smoothColumn h x hs"] Cons.prems by simp
qed

text \<open>
  The two loops of \<open>generateTerrain\<close>, for every seed, every width that is an array
  length and every integer height at which the clamp bounds are in order: the array has
  \<open>width\<close> cells, each holding a number within the bounds the code clamps to,
  \<open>round (0.3 * height)\<close> and \<open>height - 20\<close>.
\<close>

lemma generateTerrain_filled:
  assumes "0 \<le> w" and "w \<le> 4294967295"
    and "round (real_of_int k * (3 / 10)) \<le> k - 20"
  shows "\<exists>t. generateTerrain sd w (real_of_int k) = Inr t
           \<and> width t = w \<and> height t = real_of_int k
           \<and> length (heights t) = nat w
           \<and> (\<forall>i < nat w. \<exists>v. heights t ! i = Some v
                 \<and> real_of_int (round (real_of_int k * (3 / 10))) \<le> v
                 \<and> v \<le> real_of_int k - 20)"
proof -
  let ?h = "real_of_int k"
  let ?lo = "real_of_int (round (?h * (3 / 10)))" and ?hi = "?h - 20"
  let ?hs1 = "fold (terrainColumn sd ?h) [0 ..< nat w] (replicate (nat w) None)"
  let ?hs2 = "fold (smoothColumn ?h) [1 ..< nat w - 1] ?hs1"
  have le: "?lo \<le> ?hi" using assms(3) by linarith
  have hi: "?hi = real_of_int (k - 20)" by simp
  have one: "length ?hs1 = nat w \<and> filledTo (nat w) ?lo ?hi ?hs1"
    using firstLoop_filled [OF refl refl le, of "nat w" "nat w" sd] by simp
  have two: "length ?hs2 = length ?hs1 \<and> filledTo (length ?hs1) ?lo ?hi ?hs2"
  proof (rule secondLoop_filled [OF refl hi])
    show "\<forall>x \<in> set [1 ..< nat w - 1]. 0 < x \<and> Suc x < length ?hs1"
      using one by auto
    show "filledTo (length ?hs1) ?lo ?hi ?hs1"
      using one by simp
  qed
  have "generateTerrain sd w ?h = Inr \<lparr>width = w, height = ?h, heights = ?hs2\<rparr>"
    using assms(1,2) by (simp add: generateTerrain_def Let_def)
  then show ?thesis
    using one two unfolding filledTo_def by simp
qed

text \<open>
  C2. \<open>createInitialState\<close>, the one caller of \<open>generateTerrain\<close>, passes the seed alone:
  width and height are the world's, 1000 and 600. For every seed the result is then a
  terrain whose heights array has as many cells as the width, each holding a number within
  \<open>[0.3 * height, height - 20]\<close> after the smoothing pass. The same holds for every width
  that is an array length and every height that is a multiple of 10, from 30 on, where
  \<open>0.3 * height\<close> is a whole number and the code's rounding of the lower bound changes
  nothing. \<open>generateTerrain\<close> reads nothing but its three arguments, so two calls with
  the same seed, width and height return the same terrain.
\<close>

theorem generateTerrain_range:
  "(\<exists>t. generateTerrain sd WORLD_WIDTH WORLD_HEIGHT = Inr t
        \<and> width t = WORLD_WIDTH \<and> height t = WORLD_HEIGHT
        \<and> int (length (heights t)) = width t
        \<and> (\<forall>i < length (heights t). \<exists>v. heights t ! i = Some v
              \<and> 3 / 10 * height t \<le> v \<and> v \<le> height t - 20))
   \<and> (0 \<le> w \<and> w \<le> 4294967295 \<and> 3 \<le> n \<longrightarrow>
        (\<exists>t. generateTerrain sd w (real_of_int (10 * n)) = Inr t
           \<and> width t = w \<and> height t = real_of_int (10 * n)
           \<and> int (length (heights t)) = width t
           \<and> (\<forall>i < length (heights t). \<exists>v. heights t ! i = Some v
                 \<and> 3 / 10 * height t \<le> v \<and> v \<le> height t - 20)))
   \<and> (\<forall>sd' w' h'. sd' = sd \<and> w' = w \<and> h' = h \<longrightarrow>
        generateTerrain sd' w' h' = generateTerrain sd w h)"
proof -
  have general: "\<exists>t. generateTerrain sd w (real_of_int (10 * n)) = Inr t
           \<and> width t = w \<and> height t = real_of_int (10 * n)
           \<and> int (length (heights t)) = width t
           \<and> (\<forall>i < length (heights t). \<exists>v. heights t ! i = Some v
                 \<and> 3 / 10 * height t \<le> v \<and> v \<le> height t - 20)"
    if w: "0 \<le> w" "w \<le> 4294967295" and n: "3 \<le> n" for w n
  proof -
    have r: "round (real_of_int (10 * n) * (3 / 10)) = 3 * n"
    proof -
      have "real_of_int (10 * n) * (3 / 10) = real_of_int (3 * n)" by simp
      then show ?thesis by (simp only: round_of_int)
    qed
    have "round (real_of_int (10 * n) * (3 / 10)) \<le> 10 * n - 20"
      unfolding r using n by simp
    from generateTerrain_filled [OF w this, of sd]
    obtain t where t: "generateTerrain sd w (real_of_int (10 * n)) = Inr t"
      "width t = w" "height t = real_of_int (10 * n)" "length (heights t) = nat w"
      "\<forall>i < nat w. \<exists>v. heights t ! i = Some v
          \<and> real_of_int (round (real_of_int (10 * n) * (3 / 10))) \<le> v
          \<and> v \<le> real_of_int (10 * n) - 20"
      by blast
    have lo: "3 / 10 * height t = real_of_int (round (real_of_int (10 * n) * (3 / 10)))"
      unfolding r t(3) by simp
    show ?thesis
    proof (intro exI conjI)
      show "generateTerrain sd w (real_of_int (10 * n)) = Inr t" by (rule t(1))
      show "width t = w" by (rule t(2))
      show "height t = real_of_int (10 * n)" by (rule t(3))
      show "int (length (heights t)) = width t" using w(1) by (simp add: t(2,4))
      show "\<forall>i < length (heights t). \<exists>v. heights t ! i = Some v
              \<and> 3 / 10 * height t \<le> v \<and> v \<le> height t - 20"
        unfolding lo t(4) using t(5) unfolding t(3) .
    qed
  qed
  have world: "\<exists>t. generateTerrain sd WORLD_WIDTH WORLD_HEIGHT = Inr t
        \<and> width t = WORLD_WIDTH \<and> height t = WORLD_HEIGHT
        \<and> int (length (heights t)) = width t
        \<and> (\<forall>i < length (heights t). \<exists>v. heights t ! i = Some v
              \<and> 3 / 10 * height t \<le> v \<and> v \<le> height t - 20)"
    using general [of 1000 60] by simp
  show ?thesis
    using world general by blast
qed

theorem generateTerrain_range_witness:
  "(\<exists>t. generateTerrain 12345 1000 600 = Inr t
       \<and> width t = 1000 \<and> height t = 600 \<and> length (heights t) = 1000
       \<and> (\<forall>i < 1000. \<exists>v. heights t ! i = Some v \<and> 180 \<le> v \<and> v \<le> 580))
   \<and> (\<exists>t. generateTerrain 12345 4 30 = Inr t
       \<and> width t = 4 \<and> height t = 30 \<and> length (heights t) = 4
       \<and> (\<forall>i < 4. \<exists>v. heights t ! i = Some v \<and> 9 \<le> v \<and> v \<le> 10))
   \<and> generateTerrain (12000 + 345) (2 * 500) (1200 / 2) = generateTerrain 12345 1000 600"
proof -
  note th = generateTerrain_range [of 12345 4 3 "600"]
  have one: "\<exists>t. generateTerrain 12345 1000 600 = Inr t
       \<and> width t = 1000 \<and> height t = 600 \<and> length (heights t) = 1000
       \<and> (\<forall>i < 1000. \<exists>v. heights t ! i = Some v \<and> 180 \<le> v \<and> v \<le> 580)"
  proof -
    obtain t where t: "generateTerrain 12345 1000 600 = Inr t"
        "width t = 1000" "height t = 600" "int (length (heights t)) = width t"
        "\<forall>i < length (heights t). \<exists>v. heights t ! i = Some v
              \<and> 3 / 10 * height t \<le> v \<and> v \<le> height t - 20"
      using th by blast
    have l: "length (heights t) = 1000" using t(4) unfolding t(2) by simp
    show ?thesis
      using t(5) unfolding l t(3) by (intro exI [of _ t]) (simp add: t l)
  qed
  have two: "\<exists>t. generateTerrain 12345 4 30 = Inr t
       \<and> width t = 4 \<and> height t = 30 \<and> length (heights t) = 4
       \<and> (\<forall>i < 4. \<exists>v. heights t ! i = Some v \<and> 9 \<le> v \<and> v \<le> 10)"
  proof -
    obtain t where t: "generateTerrain 12345 4 30 = Inr t"
        "width t = 4" "height t = 30" "int (length (heights t)) = width t"
        "\<forall>i < length (heights t). \<exists>v. heights t ! i = Some v
              \<and> 3 / 10 * height t \<le> v \<and> v \<le> height t - 20"
      using th by auto
    have l: "length (heights t) = 4" using t(4) unfolding t(2) by simp
    show ?thesis
      using t(5) unfolding l t(3) by (intro exI [of _ t]) (simp add: t l)
  qed
  from one two show ?thesis by simp
qed

section \<open>Terrain reads\<close>

lemma heightAt_index:
  "0 \<le> clamp (round x) 0 (width t - 1)"
  "1 \<le> width t \<Longrightarrow> clamp (round x) 0 (width t - 1) \<le> width t - 1"
  "1 \<le> width t \<Longrightarrow> x < 0 \<Longrightarrow> clamp (round x) 0 (width t - 1) = 0"
  "1 \<le> width t \<Longrightarrow> real_of_int (width t) - 1 \<le> x \<Longrightarrow> clamp (round x) 0 (width t - 1) = width t - 1"
proof -
  show "0 \<le> clamp (round x) 0 (width t - 1)"
    by (simp add: clamp_def)
  show "1 \<le> width t \<Longrightarrow> clamp (round x) 0 (width t - 1) \<le> width t - 1"
    by (simp add: clamp_def)
  show "clamp (round x) 0 (width t - 1) = 0" if "1 \<le> width t" "x < 0"
  proof -
    have "round x \<le> round (0 :: real)" using that(2) by (intro round_mono) simp
    then have "round x \<le> 0" by simp
    then show ?thesis using that(1) by (simp add: clamp_def min_def max_def)
  qed
  show "clamp (round x) 0 (width t - 1) = width t - 1"
    if "1 \<le> width t" "real_of_int (width t) - 1 \<le> x"
  proof -
    have "round (real_of_int (width t - 1)) \<le> round x" using that(2) by (intro round_mono) simp
    moreover have "round (real_of_int (width t - 1)) = width t - 1" by (rule round_of_int)
    ultimately have "width t - 1 \<le> round x" by (simp only:)
    then show ?thesis using that(1) by (simp add: clamp_def min_def max_def)
  qed
qed

lemma heightAt_read:
  "heightAt t x = orElse (js_get (heights t) (nat (clamp (round x) 0 (width t - 1)))) (height t)"
  by (simp add: heightAt_def Let_def orElse_def)

lemma deformColumn_length:
  "nat x < length (heights (terrain s)) \<Longrightarrow>
     length (heights (terrain (deformColumn p x s))) = length (heights (terrain s))"
  by (simp add: deformColumn_def Let_def length_js_set_inside)

lemma fold_deformColumn_length:
  "\<forall>x \<in> set xs. nat x < length (heights (terrain s)) \<Longrightarrow>
     length (heights (terrain (fold (deformColumn p) xs s))) = length (heights (terrain s))"
  by (induction xs arbitrary: s) (simp_all add: deformColumn_length)

lemma deformTerrain_columns:
  assumes "c \<in> set [clamp \<lfloor>vec_x i - craterRadius\<rfloor> 0 (width t - 1) ..
                      clamp \<lceil>vec_x i + craterRadius\<rceil> 0 (width t - 1)]"
  shows "0 \<le> c" and "1 \<le> width t \<Longrightarrow> c \<le> width t - 1"
  using assms by (auto simp: clamp_def)

text \<open>
  C10. \<open>heightAt\<close> answers for every real \<open>x\<close>: its index \<open>round x\<close> clamped by
  \<open>[0, width - 1]\<close> is never negative, and a missing cell reads as the world height. In
  a terrain of at least one column the index is at most \<open>width - 1\<close>, it is 0 for every
  \<open>x < 0\<close> and \<open>width - 1\<close> for every \<open>x \<ge> width - 1\<close>; when the heights array
  has \<open>width\<close> cells the read is inside the array. The columns \<open>deformTerrain\<close> visits
  lie in the same range, and it leaves the length of such an array as it is, so none of its
  writes is past the end. A projectile that has left the world sideways and is not on a tank
  is tested against the height of the nearest edge column: if it is at or below that
  height, the impact is reported there, by the terrain check and not the out-of-bounds
  check that follows it.
\<close>

theorem heightAt_total:
  "(let index = clamp (round x) 0 (width t - 1)
    in 0 \<le> index
       \<and> heightAt t x = orElse (js_get (heights t) (nat index)) (height t)
       \<and> (1 \<le> width t \<longrightarrow>
            index \<le> width t - 1
            \<and> (x < 0 \<longrightarrow> index = 0)
            \<and> (real_of_int (width t) - 1 \<le> x \<longrightarrow> index = width t - 1))
       \<and> (1 \<le> width t \<and> int (length (heights t)) = width t
            \<longrightarrow> nat index < length (heights t)))
   \<and> (\<forall>c \<in> set [clamp \<lfloor>vec_x i - craterRadius\<rfloor> 0 (width (terrain s) - 1) ..
                     clamp \<lceil>vec_x i + craterRadius\<rceil> 0 (width (terrain s) - 1)].
         0 \<le> c \<and> (1 \<le> width (terrain s) \<longrightarrow> c \<le> width (terrain s) - 1))
   \<and> (1 \<le> width (terrain s) \<and> int (length (heights (terrain s))) = width (terrain s)
        \<longrightarrow> length (heights (terrain (deformTerrain s i))) = length (heights (terrain s)))
   \<and> (\<forall>p q. projectile s = Some p \<and> active p \<and> q = pos (integrateProjectile s p dt)
          \<and> \<not> hypot (vec_x q - tank_x (tanks s A)) (vec_y q - tank_y (tanks s A))
                 \<le> tankRadius + projectileRadius
          \<and> \<not> hypot (vec_x q - tank_x (tanks s B)) (vec_y q - tank_y (tanks s B))
                 \<le> tankRadius + projectileRadius
          \<and> 1 \<le> width (terrain s)
          \<and> (vec_x q < 0 \<or> real_of_int (width (terrain s)) \<le> vec_x q)
          \<and> heightAt (terrain s) (vec_x q) \<le> vec_y q + projectileRadius
        \<longrightarrow> fst (stepProjectile s dt)
              = Some \<lparr>point = \<lparr>vec_x = vec_x q,
                                vec_y = orElse (js_get (heights (terrain s))
                                           (if vec_x q < 0 then 0
                                            else nat (width (terrain s) - 1)))
                                         (height (terrain s))\<rparr>\<rparr>)"
proof -
  have one: "let index = clamp (round x) 0 (width t - 1)
    in 0 \<le> index
       \<and> heightAt t x = orElse (js_get (heights t) (nat index)) (height t)
       \<and> (1 \<le> width t \<longrightarrow>
            index \<le> width t - 1
            \<and> (x < 0 \<longrightarrow> index = 0)
            \<and> (real_of_int (width t) - 1 \<le> x \<longrightarrow> index = width t - 1))
       \<and> (1 \<le> width t \<and> int (length (heights t)) = width t
            \<longrightarrow> nat index < length (heights t))"
    unfolding Let_def using heightAt_index [where x = x and t = t] heightAt_read [where x = x and t = t]
    by auto
  have two: "\<forall>c \<in> set [clamp \<lfloor>vec_x i - craterRadius\<rfloor> 0 (width (terrain s) - 1) ..
                     clamp \<lceil>vec_x i + craterRadius\<rceil> 0 (width (terrain s) - 1)].
         0 \<le> c \<and> (1 \<le> width (terrain s) \<longrightarrow> c \<le> width (terrain s) - 1)"
    using deformTerrain_columns [where i = i and t = "terrain s"] by blast
  have three: "length (heights (terrain (deformTerrain s i))) = length (heights (terrain s))"
    if "1 \<le> width (terrain s)" "int (length (heights (terrain s))) = width (terrain s)"
    unfolding deformTerrain_def Let_def
  proof (rule fold_deformColumn_length, rule ballI)
    fix c assume "c \<in> set [clamp \<lfloor>vec_x i - craterRadius\<rfloor> 0 (width (terrain s) - 1) ..
                     clamp \<lceil>vec_x i + craterRadius\<rceil> 0 (width (terrain s) - 1)]"
    then have "0 \<le> c" "c \<le> width (terrain s) - 1"
      using deformTerrain_columns [where c = c and i = i and t = "terrain s"] that(1) by simp_all
    then show "nat c < length (heights (terrain s))"
      using that(2) by linarith
  qed
  have four: "fst (stepProjectile s dt)
              = Some \<lparr>point = \<lparr>vec_x = vec_x q,
                                vec_y = orElse (js_get (heights (terrain s))
                                           (if vec_x q < 0 then 0
                                            else nat (width (terrain s) - 1)))
                                         (height (terrain s))\<rparr>\<rparr>"
    if p: "projectile s = Some p" "active p" and q: "q = pos (integrateProjectile s p dt)"
      and miss: "\<not> hypot (vec_x q - tank_x (tanks s A)) (vec_y q - tank_y (tanks s A))
                 \<le> tankRadius + projectileRadius"
        "\<not> hypot (vec_x q - tank_x (tanks s B)) (vec_y q - tank_y (tanks s B))
                 \<le> tankRadius + projectileRadius"
      and w: "1 \<le> width (terrain s)"
      and past: "vec_x q < 0 \<or> real_of_int (width (terrain s)) \<le> vec_x q"
      and low: "heightAt (terrain s) (vec_x q) \<le> vec_y q + projectileRadius"
    for p q
  proof -
    have h: "heightAt (terrain s) (vec_x q)
             = orElse (js_get (heights (terrain s))
                 (if vec_x q < 0 then 0 else nat (width (terrain s) - 1))) (height (terrain s))"
      using past w heightAt_index(3,4) [where t = "terrain s" and x = "vec_x q"]
      by (auto simp: heightAt_read)
    have "fst (stepProjectile s dt)
            = Some \<lparr>point = \<lparr>vec_x = vec_x q, vec_y = heightAt (terrain s) (vec_x q)\<rparr>\<rparr>"
      using miss low unfolding stepProjectile_active [OF p] q
      by (simp add: findImpact_eq)
    then show ?thesis by (simp only: h)
  qed
  show ?thesis
    using one two three four by blast
qed


lemma stepTerrain_edges:
  "js_get (heights stepTerrain) 0 = Some 390"
  "js_get (heights stepTerrain) 999 = Some 400"
  "width stepTerrain = 1000"
  "height stepTerrain = 600"
  by (simp_all add: stepTerrain_def js_get_def nth_append)

lemma edgeShot_fields:
  "projectile edgeShot = Some \<lparr>pos = \<lparr>vec_x = 999, vec_y = 390\<rparr>,
                                 vel = \<lparr>vec_x = 120, vec_y = 0\<rparr>, active = True, owner = A\<rparr>"
  "terrain edgeShot = stepTerrain"
  "force (wind edgeShot) = 0"
  "tanks edgeShot A = sampleTank A 180 387"
  "tanks edgeShot B = sampleTank B 820 387"
  by (simp_all add: edgeShot_def sampleState_def)

theorem heightAt_total_witness:
  "heightAt stepTerrain (- 5) = 390
   \<and> heightAt stepTerrain 1119 = 400
   \<and> fst (stepProjectile edgeShot 1) = Some \<lparr>point = \<lparr>vec_x = 1119, vec_y = 400\<rparr>\<rparr>"
proof -
  let ?p = "\<lparr>pos = \<lparr>vec_x = 999, vec_y = 390\<rparr>, vel = \<lparr>vec_x = 120, vec_y = 0\<rparr>,
             active = True, owner = A\<rparr>"
  let ?q = "\<lparr>vec_x = 1119, vec_y = 520\<rparr>"
  have left: "heightAt stepTerrain (- 5) = 390"
    using heightAt_total [where t = stepTerrain and x = "- 5"]
    unfolding Let_def by (simp add: stepTerrain_edges orElse_def)
  have right: "heightAt stepTerrain 1119 = 400"
    using heightAt_total [where t = stepTerrain and x = 1119]
    unfolding Let_def by (simp add: stepTerrain_edges orElse_def)
  have q: "?q = pos (integrateProjectile edgeShot ?p 1)"
    by (simp add: integrateProjectile_eq edgeShot_fields)
  have miss: "\<not> hypot (vec_x ?q - tank_x (tanks edgeShot A)) (vec_y ?q - tank_y (tanks edgeShot A))
                 \<le> tankRadius + projectileRadius"
     "\<not> hypot (vec_x ?q - tank_x (tanks edgeShot B)) (vec_y ?q - tank_y (tanks edgeShot B))
                 \<le> tankRadius + projectileRadius"
    by (simp_all add: edgeShot_fields sampleTank_def hypot_le_iff)
  have past: "1 \<le> width (terrain edgeShot)"
    "vec_x ?q < 0 \<or> real_of_int (width (terrain edgeShot)) \<le> vec_x ?q"
    "heightAt (terrain edgeShot) (vec_x ?q) \<le> vec_y ?q + projectileRadius"
    by (simp_all add: edgeShot_fields stepTerrain_edges right)
  have pre: "projectile edgeShot = Some ?p \<and> active ?p
      \<and> ?q = pos (integrateProjectile edgeShot ?p 1)
      \<and> \<not> hypot (vec_x ?q - tank_x (tanks edgeShot A)) (vec_y ?q - tank_y (tanks edgeShot A))
             \<le> tankRadius + projectileRadius
      \<and> \<not> hypot (vec_x ?q - tank_x (tanks edgeShot B)) (vec_y ?q - tank_y (tanks edgeShot B))
             \<le> tankRadius + projectileRadius
      \<and> 1 \<le> width (terrain edgeShot)
      \<and> (vec_x ?q < 0 \<or> real_of_int (width (terrain edgeShot)) \<le> vec_x ?q)
      \<and> heightAt (terrain edgeShot) (vec_x ?q) \<le> vec_y ?q + projectileRadius"
    using edgeShot_fields(1) q miss past by simp
  have "fst (stepProjectile edgeShot 1)
          = Some \<lparr>point = \<lparr>vec_x = vec_x ?q,
                            vec_y = orElse (js_get (heights (terrain edgeShot))
                                       (if vec_x ?q < 0 then 0
                                        else nat (width (terrain edgeShot) - 1)))
                                     (height (terrain edgeShot))\<rparr>\<rparr>"
    using heightAt_total [where s = edgeShot and dt = 1 and t = stepTerrain and x = 0
                            and i = "\<lparr>vec_x = 0, vec_y = 0\<rparr>",
                          THEN conjunct2, THEN conjunct2, THEN conjunct2, rule_format, OF pre]
    .
  then have "fst (stepProjectile edgeShot 1) = Some \<lparr>point = \<lparr>vec_x = 1119, vec_y = 400\<rparr>\<rparr>"
    by (simp add: edgeShot_fields stepTerrain_edges orElse_def)
  with left right show ?thesis by simp
qed

section \<open>Room creation and match start\<close>

lemma clearTimers_state [simp]:
  "state (clearTurnTimer r) = state r" "state (clearSimulation r) = state r"
  by (simp_all add: clearTurnTimer_def clearSimulation_def)

lemma scheduleTurnTimeout_state [simp]: "state (scheduleTurnTimeout r) = state r"
  by (simp add: scheduleTurnTimeout_def Let_def)

lemma createInitialState_ok:
  obtains st where "createInitialState c sd sl = Inr st" "phase st = lobby"
    "turnEndsAt st = None" "activeSlot st = sl" "roomCode st = c" "projectile st = None"
    "winnerSlot st = None"
proof -
  obtain t where t: "generateTerrain sd WORLD_WIDTH WORLD_HEIGHT = Inr t"
    by (simp add: generateTerrain_def Let_def)
  show ?thesis
    by (rule that [of "projr (createInitialState c sd sl)"])
       (simp_all add: createInitialState_def t updateTankGrounding_def Let_def)
qed

lemma createUniqueCode_frame:
  "rooms (snd (createUniqueCode m)) = rooms m"
  "socketBindings (snd (createUniqueCode m)) = socketBindings m"
  by (simp_all add: createUniqueCode_def split: prod.splits option.splits)

lemma createRoom_result:
  obtains r tok m' where
    "createRoom m sid now
       = Inr (\<lparr>jr_room = r, jr_slot = A, reconnectToken = tok, started = False\<rparr>, m')"
    "code r = fst (createUniqueCode (leaveBySocketId m sid now))"
    "rooms m' = (rooms (leaveBySocketId m sid now))(code r \<mapsto> r)"
    "socketBindings m' = (socketBindings (leaveBySocketId m sid now))
                            (sid \<mapsto> \<lparr>binding_roomCode = code r, binding_slot = A\<rparr>)"
    "phase (state r) = lobby" "turnEndsAt (state r) = None"
    "players r A = Some \<lparr>player_slot = A, token = tok, socketId = Some sid,
                          player_connected = True\<rparr>"
    "players r B = None"
proof -
  let ?m1 = "leaveBySocketId m sid now"
  obtain c m2 where u: "createUniqueCode ?m1 = (c, m2)"
    by (cases "createUniqueCode ?m1")
  obtain v g where n: "mulberry32_next (manager_random m2) = (v, g)"
    by (cases "mulberry32_next (manager_random m2)")
  obtain st where st: "createInitialState c (real_of_int \<lfloor>v * 1000000000\<rfloor>) A = Inr st"
    "phase st = lobby" "turnEndsAt st = None"
    by (rule createInitialState_ok)
  obtain tok g2 where tk: "randomToken (mulberry32 \<lfloor>v * 1000000000\<rfloor>) = (tok, g2)"
    by (cases "randomToken (mulberry32 \<lfloor>v * 1000000000\<rfloor>)")
  have f: "rooms m2 = rooms ?m1" "socketBindings m2 = socketBindings ?m1"
    using createUniqueCode_frame [of ?m1] u by simp_all
  let ?r = "\<lparr>code = c, seed = \<lfloor>v * 1000000000\<rfloor>, random = g2, nextStartingSlot = A,
             state = st\<lparr>tanks := (tanks st)(A := (tanks st A)\<lparr>tank_connected := True\<rparr>)\<rparr>,
             players = [A \<mapsto> \<lparr>player_slot = A, token = tok, socketId = Some sid,
                                 player_connected = True\<rparr>],
             rematchVotes = {}, turnTimer = False, reconnectTimer = False,
             simulationTimer = False, pauseSnapshot = None, createdAt = now\<rparr>"
  let ?m' = "m2\<lparr>manager_random := g,
                 rooms := (rooms ?m1)(c \<mapsto> ?r),
                 socketBindings := (socketBindings ?m1)
                   (sid \<mapsto> \<lparr>binding_roomCode = c, binding_slot = A\<rparr>)\<rparr>"
  show ?thesis
    by (rule that [of ?r tok ?m'])
       (simp_all add: createRoom_def Let_def u n st tk f)
qed

lemma startMatch_aiming:
  "startMatch r now = Inr r' \<Longrightarrow> phase (state r') = aiming \<and> turnEndsAt (state r') \<noteq> None"
  by (auto simp: startMatch_def Let_def enterTurn_def split: prod.splits sum.splits)

lemma startMatch_ok: obtains r' where "startMatch r now = Inr r'"
proof -
  obtain u g1 where n: "mulberry32_next (random r) = (u, g1)"
    by (cases "mulberry32_next (random r)")
  obtain st where "createInitialState (code r) (real_of_int \<lfloor>u * 1000000000\<rfloor>)
                     (nextStartingSlot r) = Inr st"
    by (rule createInitialState_ok)
  then have "\<exists>r'. startMatch r now = Inr r'"
    by (simp add: startMatch_def Let_def n split: prod.splits)
  then show ?thesis using that by blast
qed

lemma leaveBySocketId_unbound: "socketBindings m sid = None \<Longrightarrow> leaveBySocketId m sid now = m"
  by (simp add: leaveBySocketId_def)

lemma admitPlayer_fields:
  "players (snd (admitPlayer r sl sid)) sl \<noteq> None"
  "sl' \<noteq> sl \<Longrightarrow> players (snd (admitPlayer r sl sid)) sl' = players r sl'"
  "phase (state (snd (admitPlayer r sl sid))) = phase (state r)"
  by (simp_all add: admitPlayer_def Let_def split: prod.splits)

section \<open>The turn deadline\<close>

lemma deformTerrain_rest: "(deformTerrain s p)\<lparr>terrain := t\<rparr> = s\<lparr>terrain := t\<rparr>"
  by (simp add: deformTerrain_def Let_def fold_deformColumn_rest)

lemma deformTerrain_phase:
  "phase (deformTerrain s p) = phase s" "turnEndsAt (deformTerrain s p) = turnEndsAt s"
proof -
  have "phase ((deformTerrain s p)\<lparr>terrain := terrain s\<rparr>) = phase (s\<lparr>terrain := terrain s\<rparr>)"
    "turnEndsAt ((deformTerrain s p)\<lparr>terrain := terrain s\<rparr>) = turnEndsAt (s\<lparr>terrain := terrain s\<rparr>)"
    by (simp_all only: deformTerrain_rest)
  then show "phase (deformTerrain s p) = phase s" "turnEndsAt (deformTerrain s p) = turnEndsAt s"
    by simp_all
qed

lemma updateTankGrounding_phase:
  "phase (updateTankGrounding s) = phase s" "turnEndsAt (updateTankGrounding s) = turnEndsAt s"
  by (simp_all add: updateTankGrounding_def Let_def)

lemma applyBlastDamage_phase:
  "phase (snd (applyBlastDamage s p)) = phase s"
  "turnEndsAt (snd (applyBlastDamage s p)) = turnEndsAt s"
  by (simp_all add: applyBlastDamage_eq blastTank_eq)

lemma stepProjectile_phase:
  "phase (snd (stepProjectile s dt)) = phase s"
  "turnEndsAt (snd (stepProjectile s dt)) = turnEndsAt s"
  by (simp_all add: stepProjectile_def Let_def split: option.splits)

lemma spawnProjectile_phase:
  "phase (spawnProjectile s sl) = phase s" "turnEndsAt (spawnProjectile s sl) = turnEndsAt s"
  by (simp_all add: spawnProjectile_def Let_def)

lemma syncTankConnections_phase:
  "phase (state (syncTankConnections r)) = phase (state r)"
  "turnEndsAt (state (syncTankConnections r)) = turnEndsAt (state r)"
  by (simp_all add: syncTankConnections_def)

lemma deadline_startMatch: "startMatch r now = Inr r' \<Longrightarrow> deadlineIffAiming r'"
  by (auto simp: startMatch_def Let_def deadlineIffAiming_def enterTurn_def
           split: prod.splits sum.splits)

lemma deadline_fireForSlot: "deadlineIffAiming r \<Longrightarrow> deadlineIffAiming (fireForSlot r sl)"
  by (simp add: fireForSlot_def Let_def deadlineIffAiming_def setPhase_def spawnProjectile_phase)

lemma deadline_resolveImpact: "deadlineIffAiming (resolveImpact r pt)"
  by (simp add: resolveImpact_def Let_def deadlineIffAiming_def setPhase_def
           split: prod.splits option.splits)

lemma deadline_simulationTick: "deadlineIffAiming r \<Longrightarrow> deadlineIffAiming (simulationTick r)"
proof -
  assume r: "deadlineIffAiming r"
  obtain impact st where s: "stepProjectile (state r) (1 / TICK_RATE) = (impact, st)"
    by (cases "stepProjectile (state r) (1 / TICK_RATE)")
  then have "phase st = phase (state r)" "turnEndsAt st = turnEndsAt (state r)"
    using stepProjectile_phase [of "state r" "1 / TICK_RATE"] by simp_all
  then have "deadlineIffAiming (r\<lparr>state := st\<rparr>)"
    using r by (simp add: deadlineIffAiming_def)
  then show ?thesis
    using s by (simp add: simulationTick_def Let_def deadline_resolveImpact split: option.splits)
qed

lemma deadline_advanceTurn: "deadlineIffAiming r \<Longrightarrow> deadlineIffAiming (advanceTurn r now)"
  by (simp add: advanceTurn_def Let_def deadlineIffAiming_def enterTurn_def split: prod.splits)

lemma deadline_turnTimeout: "deadlineIffAiming r \<Longrightarrow> deadlineIffAiming (turnTimeout r)"
  by (simp add: turnTimeout_def deadline_fireForSlot)

lemma deadline_pauseForReconnect:
  "deadlineIffAiming r \<Longrightarrow> deadlineIffAiming (pauseForReconnect r sl now)"
  by (simp add: pauseForReconnect_def Let_def deadlineIffAiming_def)

lemma deadline_reconnectTimeout:
  "deadlineIffAiming r \<Longrightarrow> deadlineIffAiming (reconnectTimeout r)"
  by (simp add: reconnectTimeout_def deadlineIffAiming_def split: option.splits)

lemma deadline_resumeFromPauseIfReady:
  "deadlineIffAiming r \<Longrightarrow> deadlineIffAiming (resumeFromPauseIfReady r now)"
  by (auto simp: resumeFromPauseIfReady_def Let_def deadlineIffAiming_def enterTurn_def
           split: option.splits prod.splits)

lemma deadline_markDisconnected:
  "deadlineIffAiming r \<Longrightarrow> deadlineIffAiming (markDisconnected r sl)"
  by (simp add: markDisconnected_def deadlineIffAiming_def split: option.splits)

lemma deadline_markConnected:
  "deadlineIffAiming r \<Longrightarrow> deadlineIffAiming (markConnected r sl sid)"
  by (simp add: markConnected_def deadlineIffAiming_def split: option.splits)


lemma everyRoom_update:
  "everyRoom P m \<Longrightarrow> P r \<Longrightarrow> everyRoom P (m\<lparr>rooms := (rooms m)(key \<mapsto> r)\<rparr>)"
  by (simp add: everyRoom_def)

lemma everyRoom_delete:
  "everyRoom P m \<Longrightarrow> everyRoom P (m\<lparr>rooms := (rooms m)(key := None)\<rparr>)"
  by (simp add: everyRoom_def)

lemma everyRoom_other [simp]:
  "everyRoom P (m\<lparr>socketBindings := b\<rparr>) = everyRoom P m"
  "everyRoom P (m\<lparr>manager_random := g\<rparr>) = everyRoom P m"
  by (simp_all add: everyRoom_def)

lemma everyRoom_lookup: "everyRoom P m \<Longrightarrow> rooms m key = Some r \<Longrightarrow> P r"
  by (simp add: everyRoom_def)

lemma everyRoom_destroy:
  "everyRoom P m \<Longrightarrow> P r \<Longrightarrow> everyRoom P (destroyRoomIfEmpty m key r)"
  by (simp add: destroyRoomIfEmpty_def everyRoom_def)

lemma rooms_destroyRoomIfEmpty:
  "rooms (destroyRoomIfEmpty m key r) k = Some r' \<Longrightarrow> r' = r \<or> rooms m k = Some r'"
  by (auto simp: destroyRoomIfEmpty_def split: if_splits)

lemma deadline_votes [simp]:
  "deadlineIffAiming (r\<lparr>rematchVotes := v\<rparr>) = deadlineIffAiming r"
  by (simp add: deadlineIffAiming_def)

lemma deadline_leaveBySocketId:
  assumes "everyRoom deadlineIffAiming m"
  shows "everyRoom deadlineIffAiming (leaveBySocketId m sid now)"
proof (cases "socketBindings m sid")
  case None
  then show ?thesis using assms by (simp add: leaveBySocketId_def)
next
  case (Some binding)
  let ?m1 = "m\<lparr>socketBindings := (socketBindings m)(sid := None)\<rparr>"
  have m1: "everyRoom deadlineIffAiming ?m1" using assms by simp
  show ?thesis
  proof (cases "rooms m (binding_roomCode binding)")
    case None
    then show ?thesis using Some m1 by (simp add: leaveBySocketId_def Let_def)
  next
    case room: (Some r)
    have r: "deadlineIffAiming r"
      using assms room by (rule everyRoom_lookup)
    then have d: "deadlineIffAiming (markDisconnected r (binding_slot binding))"
      by (rule deadline_markDisconnected)
    have p: "deadlineIffAiming
               (pauseForReconnect (markDisconnected r (binding_slot binding)) sl' now)" for sl'
      using d by (rule deadline_pauseForReconnect)
    show ?thesis
      using Some room m1 d p
      by (auto simp: leaveBySocketId_def Let_def everyRoom_def
               split: option.splits dest!: rooms_destroyRoomIfEmpty)
  qed
qed


lemma deadline_createRoom:
  assumes "everyRoom deadlineIffAiming m" and "createRoom m sid now = Inr (jr, m')"
  shows "everyRoom deadlineIffAiming m'"
proof -
  obtain r tok m'' where c: "createRoom m sid now
       = Inr (\<lparr>jr_room = r, jr_slot = A, reconnectToken = tok, started = False\<rparr>, m'')"
    "rooms m'' = (rooms (leaveBySocketId m sid now))(code r \<mapsto> r)"
    "phase (state r) = lobby" "turnEndsAt (state r) = None"
    by (rule createRoom_result)
  have "everyRoom deadlineIffAiming (leaveBySocketId m sid now)"
    using assms(1) by (rule deadline_leaveBySocketId)
  moreover have "deadlineIffAiming r"
    using c(3,4) by (simp add: deadlineIffAiming_def)
  moreover have "m' = m''" using assms(2) c(1) by simp
  ultimately show ?thesis
    using c(2) by (simp add: everyRoom_def)
qed


lemma deadline_frame [simp]:
  "deadlineIffAiming (r\<lparr>random := g\<rparr>) = deadlineIffAiming r"
  "deadlineIffAiming (r\<lparr>players := ps\<rparr>) = deadlineIffAiming r"
  "deadlineIffAiming (r\<lparr>state := (state r)\<lparr>tanks := ts\<rparr>\<rparr>) = deadlineIffAiming r"
  by (simp_all add: deadlineIffAiming_def)

lemma deadline_admitPlayer:
  "deadlineIffAiming r \<Longrightarrow> deadlineIffAiming (snd (admitPlayer r sl sid))"
  by (simp add: admitPlayer_def Let_def deadlineIffAiming_def split: prod.splits)

lemma deadline_joinRoom:
  assumes "everyRoom deadlineIffAiming m"
    and "joinRoom m sid key reconnect now = Inr (res, m')"
  shows "everyRoom deadlineIffAiming m'"
proof -
  let ?m1 = "leaveBySocketId m sid now"
  have m1: "everyRoom deadlineIffAiming ?m1"
    using assms(1) by (rule deadline_leaveBySocketId)
  show ?thesis
  proof (cases "rooms ?m1 key")
    case None
    then show ?thesis using assms(2) m1 by (simp add: joinRoom_def Let_def)
  next
    case room: (Some r)
    have r: "deadlineIffAiming r"
      using m1 room by (rule everyRoom_lookup)
    show ?thesis
    proof (cases "claimedSlot r reconnect")
      case (Some sl)
      have "deadlineIffAiming (resumeFromPauseIfReady (markConnected r sl sid) now)"
        using r by (intro deadline_resumeFromPauseIfReady deadline_markConnected)
      moreover have "rooms m' = (rooms ?m1)(key \<mapsto> resumeFromPauseIfReady (markConnected r sl sid) now)"
        using assms(2) by (auto simp: joinRoom_def Let_def room Some)
      ultimately show ?thesis
        using m1 by (simp add: everyRoom_def)
    next
      case None
      show ?thesis
      proof (cases "slotToAssign r")
        case none: None
        have "m' = ?m1"
          using assms(2) by (simp add: joinRoom_def Let_def room None none)
        then show ?thesis using m1 by simp
      next
        case (Some sl)
        obtain tok r2 where a: "admitPlayer r sl sid = (tok, r2)"
          by (cases "admitPlayer r sl sid")
        have r2: "deadlineIffAiming r2"
          using deadline_admitPlayer [OF r, of sl sid] a by simp
        have "rooms m' = (rooms ?m1)(key \<mapsto> r2)
              \<or> (\<exists>r3. startMatch r2 now = Inr r3 \<and> rooms m' = (rooms ?m1)(key \<mapsto> r3))"
          using assms(2)
          by (auto simp: joinRoom_def Let_def room None Some a split: sum.splits if_splits)
        then show ?thesis
          using m1 r2 by (auto simp: everyRoom_def dest: deadline_startMatch split: if_splits)
      qed
    qed
  qed
qed

lemma deadline_applyAim:
  "everyRoom deadlineIffAiming m \<Longrightarrow> everyRoom deadlineIffAiming (snd (applyAim m sid angle pw))"
  by (auto simp: applyAim_def Let_def everyRoom_def deadlineIffAiming_def split: option.splits)

lemma deadline_fire:
  assumes "everyRoom deadlineIffAiming m"
  shows "everyRoom deadlineIffAiming (snd (fire m sid))"
proof -
  have "\<And>k r sl. rooms m k = Some r \<Longrightarrow> deadlineIffAiming (fireForSlot r sl)"
    using assms by (auto simp: everyRoom_def intro: deadline_fireForSlot)
  then show ?thesis
    using assms by (auto simp: fire_def Let_def everyRoom_def split: option.splits)
qed

lemma deadline_requestRematch:
  assumes "everyRoom deadlineIffAiming m" and "requestRematch m sid now = Inr (res, m')"
  shows "everyRoom deadlineIffAiming m'"
proof (cases "socketBindings m sid")
  case None
  then show ?thesis using assms by (simp add: requestRematch_def)
next
  case (Some info)
  show ?thesis
  proof (cases "rooms m (binding_roomCode info)")
    case None
    then show ?thesis using assms Some by (simp add: requestRematch_def)
  next
    case room: (Some r)
    let ?r1 = "r\<lparr>rematchVotes := insert (binding_slot info) (rematchVotes r)\<rparr>"
    have r1: "deadlineIffAiming ?r1"
      using assms(1) room by (simp add: everyRoom_def)
    have "m' = m \<or> m' = m\<lparr>rooms := (rooms m)(binding_roomCode info \<mapsto> ?r1)\<rparr>
          \<or> (\<exists>r2. startMatch ?r1 now = Inr r2
                \<and> m' = m\<lparr>rooms := (rooms m)(binding_roomCode info \<mapsto> r2)\<rparr>)"
      using assms(2) Some room
      by (auto simp: requestRematch_def Let_def split: if_splits sum.splits)
    then show ?thesis
      using assms(1) r1 by (auto simp: everyRoom_def dest: deadline_startMatch split: if_splits)
  qed
qed

lemma deadline_reachable: "reachable m \<Longrightarrow> everyRoom deadlineIffAiming m"
proof (induction rule: reachable.induct)
  case (constructed now)
  show ?case by (simp add: emptyManager_def everyRoom_def)
next
  case (created m sid now jr m')
  from created.IH created.hyps(2) show ?case by (rule deadline_createRoom)
next
  case (joined m sid key reconnect now res m')
  from joined.IH joined.hyps(2) show ?case by (rule deadline_joinRoom)
next
  case (left m sid now)
  from left.IH show ?case by (rule deadline_leaveBySocketId)
next
  case (aimed m sid angle pw)
  from aimed.IH show ?case by (rule deadline_applyAim)
next
  case (fired m sid)
  from fired.IH show ?case by (rule deadline_fire)
next
  case (rematch m sid now res m')
  from rematch.IH rematch.hyps(2) show ?case by (rule deadline_requestRematch)
next
  case (turn_timer m key r)
  have "deadlineIffAiming r" using turn_timer.IH turn_timer.hyps(2) by (rule everyRoom_lookup)
  then show ?case
    by (intro everyRoom_update deadline_turnTimeout turn_timer.IH)
next
  case (simulation_timer m key r)
  have "deadlineIffAiming r"
    using simulation_timer.IH simulation_timer.hyps(2) by (rule everyRoom_lookup)
  then show ?case
    by (intro everyRoom_update deadline_simulationTick simulation_timer.IH)
next
  case (advance_timer m key r now)
  have "deadlineIffAiming r"
    using advance_timer.IH advance_timer.hyps(2) by (rule everyRoom_lookup)
  then show ?case
    by (intro everyRoom_update deadline_advanceTurn advance_timer.IH)
next
  case (reconnect_timer m key r)
  have "deadlineIffAiming r"
    using reconnect_timer.IH reconnect_timer.hyps(2) by (rule everyRoom_lookup)
  then show ?case
    by (intro everyRoom_update deadline_reconnectTimeout reconnect_timer.IH)
qed

text \<open>
  C6. In every room of every reachable registry, that is after any sequence of room
  creations, joins and reconnects (with the match start and the resume from pause they
  trigger), leaves (with the pause on disconnect), aims, shots, rematch votes, and firings
  of the turn timer, the simulation tick (with the impact resolution), the turn advance
  and the reconnect-grace timer (the forfeit), the snapshot's \<open>turnEndsAt\<close> is non-null
  if and only if the phase is \<open>aiming\<close>.
\<close>

theorem turn_deadline_iff_aiming:
  assumes "reachable m" and "rooms m key = Some r"
  shows "(turnEndsAt (state r) \<noteq> None) = (phase (state r) = aiming)"
  using deadline_reachable [OF assms(1)] assms(2)
  by (simp add: everyRoom_def deadlineIffAiming_def)


theorem turn_deadline_iff_aiming_witness:
  "\<exists>jr m jr2 m2.
      createRoom (emptyManager 0) ''socket-a'' 0 = Inr (jr, m)
      \<and> joinRoom m ''socket-b'' (code (jr_room jr)) None 1000 = Inr (Some jr2, m2)
      \<and> reachable m2
      \<and> rooms m2 (code (jr_room jr)) = Some (jr_room jr2)
      \<and> phase (state (jr_room jr2)) = aiming
      \<and> turnEndsAt (state (jr_room jr2)) \<noteq> None"
proof -
  let ?m0 = "emptyManager 0"
  have l0: "leaveBySocketId ?m0 ''socket-a'' 0 = ?m0"
    by (simp add: leaveBySocketId_unbound emptyManager_def)
  obtain r tok m where c:
    "createRoom ?m0 ''socket-a'' 0
       = Inr (\<lparr>jr_room = r, jr_slot = A, reconnectToken = tok, started = False\<rparr>, m)"
    "rooms m = (rooms (leaveBySocketId ?m0 ''socket-a'' 0))(code r \<mapsto> r)"
    "socketBindings m = (socketBindings (leaveBySocketId ?m0 ''socket-a'' 0))
                            (''socket-a'' \<mapsto> \<lparr>binding_roomCode = code r, binding_slot = A\<rparr>)"
    "phase (state r) = lobby"
    "players r A = Some \<lparr>player_slot = A, token = tok, socketId = Some ''socket-a'',
                          player_connected = True\<rparr>"
    "players r B = None"
    by (rule createRoom_result [of ?m0 "''socket-a''" 0]) blast
  have rm: "reachable m"
    using reachable.constructed c(1) by (rule reachable.created)
  have "socketBindings m ''socket-b'' = None"
    unfolding c(3) l0 by (simp add: emptyManager_def)
  then have l1: "leaveBySocketId m ''socket-b'' 1000 = m"
    by (rule leaveBySocketId_unbound)
  have look: "rooms m (code r) = Some r"
    by (simp add: c(2))
  have slot: "claimedSlot r None = None" "slotToAssign r = Some B"
    by (simp_all add: claimedSlot_def slotToAssign_def c(5,6))
  obtain tok2 r2 where a: "admitPlayer r B ''socket-b'' = (tok2, r2)"
    by (cases "admitPlayer r B ''socket-b''")
  have r2: "players r2 A \<noteq> None" "players r2 B \<noteq> None" "phase (state r2) = lobby"
    using admitPlayer_fields(1) [where r = r and sl = B and sid = "''socket-b''"]
      admitPlayer_fields(2) [where r = r and sl = B and sid = "''socket-b''" and sl' = A]
      admitPlayer_fields(3) [where r = r and sl = B and sid = "''socket-b''"]
      a c(4,5) by simp_all
  obtain r3 where s: "startMatch r2 1000 = Inr r3"
    by (rule startMatch_ok)
  let ?jr2 = "\<lparr>jr_room = r3, jr_slot = B, reconnectToken = tok2, started = True\<rparr>"
  let ?m2 = "m\<lparr>rooms := (rooms m)(code r \<mapsto> r3),
               socketBindings := (socketBindings m)
                 (''socket-b'' \<mapsto> \<lparr>binding_roomCode = code r, binding_slot = B\<rparr>)\<rparr>"
  have j: "joinRoom m ''socket-b'' (code r) None 1000 = Inr (Some ?jr2, ?m2)"
    by (simp add: joinRoom_def Let_def l1 look slot a r2 s)
  have rm2: "reachable ?m2"
    using rm j by (rule reachable.joined)
  have look2: "rooms ?m2 (code r) = Some r3"
    by simp
  have aim: "phase (state r3) = aiming"
    using startMatch_aiming [OF s] by simp
  have "turnEndsAt (state r3) \<noteq> None"
    using turn_deadline_iff_aiming [OF rm2 look2] aim by simp
  then show ?thesis
    using c(1) j rm2 look2 aim by (intro exI [of _ "\<lparr>jr_room = r, jr_slot = A, reconnectToken = tok, started = False\<rparr>"] exI [of _ m] exI [of _ ?jr2] exI [of _ ?m2]) simp
qed

section \<open>Room codes\<close>

text \<open>The stream and the code generator compute: the first draws of the stream seeded with 7.\<close>

lemma mulberry32_first: "fst (mulberry32_next (mulberry32 7)) = 12567883 / 1073741824"
  by (simp add: mulberry32_next_def mulberry32_def Let_def)








































end
